theory Spec2Isabelle
  imports Main "HOL-Library.Word" "HOL-Library.AList"
begin

unbundle bit_operations_syntax

section \<open>The A/B testing SDK (snippet/ab-tracker-sdk/src/index.ts)\<close>

text \<open>
  A shallow embedding of the class \<open>ABTrackerEnterprise\<close>. The instance fields are a
  record, the browser's persisted stores are a second record carried inside it, and
  every method is a function from the state before the call to the state after it.
  What the browser supplies (the location, the user agent, the clock, the regular
  expression engine, the selector engine) is a parameter of the functions.
\<close>

subsection \<open>Strings and values\<close>

text \<open>
  A JavaScript string is a sequence of 16-bit code units; \<open>charCodeAt\<close> reads one.
  \<open>lit\<close> embeds the string literals of the source.
\<close>

type_synonym jsstring = "16 word list"

definition lit :: "string \<Rightarrow> jsstring" where
  "lit s = map (\<lambda>c. of_nat (of_char c)) s"

datatype js_error = TypeError | SyntaxError

text \<open>
  The values that travel in event envelopes, in the data of a custom event and in
  global variables. Numbers are the integral ones; timestamps are kept as epoch
  milliseconds (the source prints them with \<open>toISOString\<close> and reads them back with
  \<open>new Date(..).getTime()\<close>).
\<close>

datatype jsval =
    JUndefined
  | JNull
  | JBool bool
  | JNum int
  | JStr jsstring
  | JArr "jsval list"
  | JObj "(jsstring \<times> jsval) list"

type_synonym jsobj = "(jsstring \<times> jsval) list"

text \<open>
  An object literal with a spread, \<open>{a: x, ...data}\<close>: the properties of \<open>data\<close> are
  written one by one, a later one replacing an earlier one of the same name.
\<close>

definition spread :: "jsobj \<Rightarrow> jsobj \<Rightarrow> jsobj" where
  "spread obj data = fold (\<lambda>kv acc. AList.update (fst kv) (snd kv) acc) data obj"

definition optStr :: "jsstring option \<Rightarrow> jsval" where
  "optStr s = (case s of None \<Rightarrow> JUndefined | Some x \<Rightarrow> JStr x)"

text \<open>\<open>!s\<close> for an optional string: absent, or the empty string.\<close>

definition falsyStr :: "jsstring option \<Rightarrow> bool" where
  "falsyStr s = (case s of None \<Rightarrow> True | Some x \<Rightarrow> x = [])"

text \<open>\<open>s || ""\<close>.\<close>

definition orEmpty :: "jsstring option \<Rightarrow> jsstring" where
  "orEmpty s = (case s of None \<Rightarrow> [] | Some x \<Rightarrow> x)"

fun startsWith :: "jsstring \<Rightarrow> jsstring \<Rightarrow> bool" where
  "startsWith s [] = True"
| "startsWith [] (p # ps) = False"
| "startsWith (c # s) (p # ps) = (c = p \<and> startsWith s ps)"

text \<open>\<open>s.indexOf(needle) > -1\<close>.\<close>

fun js_includes :: "jsstring \<Rightarrow> jsstring \<Rightarrow> bool" where
  "js_includes [] needle = (needle = [])"
| "js_includes (c # s) needle = (startsWith (c # s) needle \<or> js_includes s needle)"

definition toLowerAscii :: "16 word \<Rightarrow> 16 word" where
  "toLowerAscii c = (if 65 \<le> c \<and> c \<le> 90 then c + 32 else c)"

subsection \<open>Numbers: the 32-bit operators and the remainder\<close>

text \<open>
  \<open>toInt32\<close> is the conversion that \<open><<\<close> and \<open>&\<close> apply to their operands and to their
  result: the value modulo \<open>2^32\<close>, read as a signed 32-bit integer. The intermediate
  \<open>(hash << 5) - hash + char\<close> is an exact double, so it is an \<open>int\<close> here.
\<close>

definition toInt32 :: "int \<Rightarrow> int" where
  "toInt32 x = (x + 2 ^ 31) mod 2 ^ 32 - 2 ^ 31"

text \<open>\<open>h << 5\<close>.\<close>

definition shiftLeft5 :: "int \<Rightarrow> int" where
  "shiftLeft5 h = toInt32 (toInt32 h * 32)"

text \<open>\<open>a % b\<close> on integral numbers: the sign follows the dividend.\<close>

definition js_rem :: "int \<Rightarrow> int \<Rightarrow> int" where
  "js_rem a b = sgn a * (\<bar>a\<bar> mod \<bar>b\<bar>)"

subsection \<open>Configuration\<close>

record ChangeInstruction =
  ch_selector :: jsstring
  ch_action :: jsstring
  ch_value :: "jsstring option"
  ch_attributeName :: "jsstring option"
  ch_allowInnerHTML :: "bool option"
  ch_waitForSelector :: "int option"

text \<open>\<open>trafficWeight\<close> and \<open>trafficAllocation\<close> are integral numbers.\<close>

record VariantConfig =
  v_id :: jsstring
  v_name :: "jsstring option"
  v_isControl :: "bool option"
  trafficWeight :: int
  changes :: "ChangeInstruction list"

text \<open>
  \<open>aud_type\<close> is declared \<open>string\<close> in the source. \<open>aud_operator\<close> is declared as a union
  of seven literals, but it is read from JSON and the source keeps a \<open>default\<close> branch
  for any other string, so it is a string here.
\<close>

record AudienceConfig =
  aud_type :: jsstring
  aud_key :: "jsstring option"
  aud_operator :: jsstring
  aud_value :: jsval

datatype ExperimentStatus = RUNNING | PAUSED

record ExperimentConfig =
  exp_id :: jsstring
  exp_name :: "jsstring option"
  exp_status :: ExperimentStatus
  trafficAllocation :: int
  exp_urlPattern :: jsstring
  audiences :: "AudienceConfig list option"
  variants :: "VariantConfig list"

datatype GoalType = PAGE_VIEW | CLICK | FORM_SUBMIT | CUSTOM_EVENT | SCROLL | ELEMENT_VISIBILITY

record GoalConfig =
  goal_id :: jsstring
  goal_name :: "jsstring option"
  goal_type :: GoalType
  goal_selector :: "jsstring option"
  goal_urlPattern :: "jsstring option"
  eventName :: "jsstring option"
  experimentIds :: "jsstring list option"

record ProjectConfig =
  cfg_projectId :: jsstring
  experiments :: "ExperimentConfig list"
  goals :: "GoalConfig list"
  cfg_version :: "int option"

fun goalTypeName :: "GoalType \<Rightarrow> jsstring" where
  "goalTypeName PAGE_VIEW = lit ''PAGE_VIEW''"
| "goalTypeName CLICK = lit ''CLICK''"
| "goalTypeName FORM_SUBMIT = lit ''FORM_SUBMIT''"
| "goalTypeName CUSTOM_EVENT = lit ''CUSTOM_EVENT''"
| "goalTypeName SCROLL = lit ''SCROLL''"
| "goalTypeName ELEMENT_VISIBILITY = lit ''ELEMENT_VISIBILITY''"

subsection \<open>Persisted and in-memory state\<close>

text \<open>
  \<open>StoredAssignments\<close> and \<open>ExposureRecord\<close> are objects keyed by the experiment id:
  association lists in insertion order, read with \<open>map_of\<close>, written with
  \<open>AList.update\<close> and \<open>AList.delete\<close>. (Ids that look like array indices, which
  \<open>Object.entries\<close> lists first, and ids that name a member of \<open>Object.prototype\<close> are
  not told apart.)
\<close>

record Assignment =
  variantId :: jsstring
  variantName :: "jsstring option"
  experimentName :: "jsstring option"
  assignedAt :: int

record Exposure =
  exposure_variantId :: jsstring
  exposedAt :: int
  exposureCount :: int

text \<open>
  The browser's stores as the SDK uses them: the cookie jar, the six keys of
  \<open>STORAGE_KEYS\<close> in \<open>localStorage\<close> and \<open>sessionStorage\<close> (a JSON value is kept as the
  value it encodes, \<open>None\<close> when the key is absent or does not parse), the bodies posted
  to the ingest URL, \<open>window.dataLayer\<close>, and the number of UUIDs drawn so far.
\<close>

record Storage =
  cookies :: "(jsstring \<times> jsstring) list"
  ls_visitorId :: "jsstring option"
  ls_assignments :: "(jsstring \<times> Assignment) list option"
  ls_exposures :: "(jsstring \<times> Exposure) list option"
  ls_configCache :: "(int \<times> ProjectConfig) option"
  ls_lastActivity :: "int option"
  ss_sessionId :: "jsstring option"
  posted :: "jsval list list"
  dataLayer :: "jsval list"
  uuidCount :: nat

text \<open>
  What a call reads from the page: the location, the user agent, the referrer, the
  global variables, the clock, and the built-ins the source calls: \<open>new RegExp(p)\<close>
  (\<open>None\<close> when it throws a SyntaxError, otherwise its \<open>test\<close>), \<open>String(v)\<close> of a value
  that is not a string, the comparisons \<open>Number(a) > Number(b)\<close> and
  \<open>Number(a) < Number(b)\<close>, \<open>el.matches(sel)\<close> and \<open>el.closest(sel)\<close> on an element, and
  \<open>generateUUID\<close>.
\<close>

record PageEnv =
  href :: jsstring
  pathname :: jsstring
  searchParams :: "(jsstring \<times> jsstring) list"
  userAgent :: jsstring
  referrer :: jsstring
  jsVars :: "jsstring \<Rightarrow> jsval"
  now :: int
  regexCompile :: "jsstring \<Rightarrow> (jsstring \<Rightarrow> bool) option"
  stringOfValue :: "jsval \<Rightarrow> jsstring"
  numGreater :: "jsval \<Rightarrow> jsval \<Rightarrow> bool"
  numLess :: "jsval \<Rightarrow> jsval \<Rightarrow> bool"
  domMatches :: "nat \<Rightarrow> jsstring \<Rightarrow> bool"
  domClosest :: "nat \<Rightarrow> jsstring \<Rightarrow> bool"
  generateUUID :: "nat \<Rightarrow> jsstring"

record InitOptions =
  opt_projectId :: jsstring
  opt_ingestUrl :: jsstring
  opt_configUrl :: jsstring
  opt_debug :: "bool option"
  opt_antiFlickerTimeout :: "int option"
  opt_attributionWindowDays :: "int option"

text \<open>
  The instance. \<open>scrollGoals\<close> and \<open>visibilityGoals\<close> are the arrays the listeners of
  \<open>setupScrollGoals\<close> and \<open>setupVisibilityGoals\<close> close over (empty before they are
  installed); \<open>pageHidden\<close> is the class \<open>ab-loading\<close> on the document element;
  \<open>appliedChanges\<close> lists the change instructions handed to \<open>applyChanges\<close>.
\<close>

record Tracker =
  projectId :: jsstring
  ingestUrl :: jsstring
  configUrl :: jsstring
  visitorId :: jsstring
  sessionId :: jsstring
  assignments :: "(jsstring \<times> Assignment) list"
  exposures :: "(jsstring \<times> Exposure) list"
  config :: "ProjectConfig option"
  eventQueue :: "jsval list"
  activeExperiments :: "jsstring set"
  antiFlickerTimeout :: int
  attributionWindowDays :: int
  isRevealed :: bool
  trackedGoals :: "jsstring set"
  scrollGoals :: "GoalConfig list"
  visibilityGoals :: "GoalConfig list"
  pageHidden :: bool
  appliedChanges :: "ChangeInstruction list"
  storage :: Storage

subsection \<open>Event queue\<close>

text \<open>
  \<open>flushEvents\<close>: the whole queue is posted as one batch and the queue is emptied at
  once; the request is not awaited and a failure is only logged.
\<close>

definition flushEvents :: "Tracker \<Rightarrow> Tracker" where
  "flushEvents t =
     (if eventQueue t = [] then t
      else t\<lparr>eventQueue := [],
             storage := (storage t)\<lparr>posted := posted (storage t) @ [eventQueue t]\<rparr>\<rparr>)"

text \<open>
  The object literal of \<open>enqueueEvent\<close>, with the value of \<open>this.sessionId\<close> as an
  argument: the constructor calls \<open>enqueueEvent\<close> from \<open>resolveSessionId\<close>, before the
  field is assigned.
\<close>

definition envelope :: "PageEnv \<Rightarrow> Tracker \<Rightarrow> jsval \<Rightarrow> jsstring \<Rightarrow> jsobj \<Rightarrow> jsval" where
  "envelope env t sid evType data =
     JObj (spread [(lit ''projectId'', JStr (projectId t)),
                   (lit ''visitorId'', JStr (visitorId t)),
                   (lit ''sessionId'', sid),
                   (lit ''timestamp'', JNum (now env)),
                   (lit ''eventType'', JStr evType),
                   (lit ''url'', JStr (href env))] data)"

definition enqueueWith :: "PageEnv \<Rightarrow> jsval \<Rightarrow> jsstring \<Rightarrow> jsobj \<Rightarrow> Tracker \<Rightarrow> Tracker" where
  "enqueueWith env sid evType data t =
     (let t' = t\<lparr>eventQueue := eventQueue t @ [envelope env t sid evType data]\<rparr>
      in if 5 \<le> length (eventQueue t') then flushEvents t' else t')"

definition enqueueEvent :: "PageEnv \<Rightarrow> jsstring \<Rightarrow> jsobj \<Rightarrow> Tracker \<Rightarrow> Tracker" where
  "enqueueEvent env evType data t = enqueueWith env (JStr (sessionId t)) evType data t"

definition pushDataLayer :: "jsobj \<Rightarrow> Tracker \<Rightarrow> Tracker" where
  "pushDataLayer d t =
     t\<lparr>storage := (storage t)\<lparr>dataLayer := dataLayer (storage t) @ [JObj d]\<rparr>\<rparr>"

subsection \<open>Anti-flicker\<close>

definition revealPage :: "Tracker \<Rightarrow> Tracker" where
  "revealPage t = (if isRevealed t then t else t\<lparr>isRevealed := True, pageHidden := False\<rparr>)"

subsection \<open>Exposure management\<close>

definition recordExposure :: "PageEnv \<Rightarrow> jsstring \<Rightarrow> jsstring \<Rightarrow> Tracker \<Rightarrow> Tracker" where
  "recordExposure env experimentId vId t =
     (let exps =
            (case map_of (exposures t) experimentId of
               Some e \<Rightarrow>
                 AList.update experimentId (e\<lparr>exposureCount := exposureCount e + 1\<rparr>) (exposures t)
             | None \<Rightarrow>
                 AList.update experimentId
                   \<lparr>exposure_variantId = vId, exposedAt = now env, exposureCount = 1\<rparr>
                   (exposures t))
      in t\<lparr>exposures := exps, storage := (storage t)\<lparr>ls_exposures := Some exps\<rparr>\<rparr>)"

definition isExposedToExperiment :: "jsstring \<Rightarrow> Tracker \<Rightarrow> bool" where
  "isExposedToExperiment experimentId t = (map_of (exposures t) experimentId \<noteq> None)"

definition hasAnyExposure :: "Tracker \<Rightarrow> bool" where
  "hasAnyExposure t = (0 < length (exposures t))"

record AttributedExperiment =
  ae_experimentId :: jsstring
  ae_experimentName :: "jsstring option"
  ae_variantId :: jsstring
  ae_variantName :: "jsstring option"

fun getExposedLoop ::
  "(jsstring \<times> Assignment) list \<Rightarrow> (jsstring \<times> Exposure) list \<Rightarrow> AttributedExperiment list"
where
  "getExposedLoop asg [] = []"
| "getExposedLoop asg ((experimentId, exposure) # rest) =
     (case map_of asg experimentId of
        Some assignment \<Rightarrow>
          \<lparr>ae_experimentId = experimentId,
           ae_experimentName = experimentName assignment,
           ae_variantId = exposure_variantId exposure,
           ae_variantName = variantName assignment\<rparr> # getExposedLoop asg rest
      | None \<Rightarrow> getExposedLoop asg rest)"

definition getExposedExperiments :: "Tracker \<Rightarrow> AttributedExperiment list" where
  "getExposedExperiments t = getExposedLoop (assignments t) (exposures t)"

text \<open>
  The loop of \<open>cleanupExpiredExposures\<close> runs over the entries as they were when it
  started and deletes from the live object.
\<close>

fun cleanupLoop ::
  "int \<Rightarrow> int \<Rightarrow> (jsstring \<times> Exposure) list \<Rightarrow> (jsstring \<times> Exposure) list \<times> bool
     \<Rightarrow> (jsstring \<times> Exposure) list \<times> bool"
where
  "cleanupLoop nowMs windowMs [] acc = acc"
| "cleanupLoop nowMs windowMs ((experimentId, exposure) # rest) (exps, changed) =
     (if nowMs - exposedAt exposure > windowMs
      then cleanupLoop nowMs windowMs rest (AList.delete experimentId exps, True)
      else cleanupLoop nowMs windowMs rest (exps, changed))"

definition cleanupExpiredExposures :: "PageEnv \<Rightarrow> Tracker \<Rightarrow> Tracker" where
  "cleanupExpiredExposures env t =
     (let windowMs = attributionWindowDays t * 24 * 60 * 60 * 1000;
          r = cleanupLoop (now env) windowMs (exposures t) (exposures t, False);
          t' = t\<lparr>exposures := fst r\<rparr>
      in if snd r
         then t'\<lparr>storage := (storage t')\<lparr>ls_exposures := Some (exposures t')\<rparr>\<rparr>
         else t')"

subsection \<open>Targeting and assignment\<close>

fun hashCode_loop :: "int \<Rightarrow> jsstring \<Rightarrow> int" where
  "hashCode_loop hash [] = hash"
| "hashCode_loop hash (c # str) =
     hashCode_loop (toInt32 (shiftLeft5 hash - hash + uint c)) str"

definition hashCode :: "jsstring \<Rightarrow> int" where
  "hashCode str = \<bar>hashCode_loop 0 str\<bar>"

fun bucket_loop :: "int \<Rightarrow> int \<Rightarrow> VariantConfig list \<Rightarrow> jsstring option" where
  "bucket_loop hash weightSum [] = None"
| "bucket_loop hash weightSum (v # vs) =
     (let weightSum' = weightSum + trafficWeight v
      in if js_rem hash 100 < weightSum' then Some (v_id v)
         else bucket_loop hash weightSum' vs)"

text \<open>\<open>variants[0].id\<close> on an empty array is a TypeError.\<close>

definition bucket :: "jsstring \<Rightarrow> jsstring \<Rightarrow> VariantConfig list \<Rightarrow> js_error + jsstring" where
  "bucket vis salt vs =
     (let hash = hashCode (vis @ salt)
      in case bucket_loop hash 0 vs of
           Some i \<Rightarrow> Inr i
         | None \<Rightarrow> (case vs of [] \<Rightarrow> Inl TypeError | v # _ \<Rightarrow> Inr (v_id v)))"

definition isUserInSample :: "jsstring \<Rightarrow> jsstring \<Rightarrow> int \<Rightarrow> bool" where
  "isUserInSample vis expId allocation =
     (let hash = hashCode (vis @ expId @ lit ''alloc'')
      in js_rem hash 100 < allocation)"

text \<open>\<open>/Mobi|Android/i.test(navigator.userAgent) ? "mobile" : "desktop"\<close>.\<close>

definition deviceClass :: "jsstring \<Rightarrow> jsstring" where
  "deviceClass ua =
     (if js_includes (map toLowerAscii ua) (lit ''mobi'')
         \<or> js_includes (map toLowerAscii ua) (lit ''android'')
      then lit ''mobile'' else lit ''desktop'')"

definition js_String :: "PageEnv \<Rightarrow> jsval \<Rightarrow> jsstring" where
  "js_String env v = (case v of JStr s \<Rightarrow> s | _ \<Rightarrow> stringOfValue env v)"

text \<open>
  The first \<open>switch\<close> of the callback in \<open>checkAudiences\<close>: the value observed for the
  predicate, \<open>None\<close> in the \<open>default\<close> branch (which returns true). \<open>jar\<close> is the cookie
  jar that \<open>CookieUtils.get\<close> reads.
\<close>

definition userValueOf ::
  "PageEnv \<Rightarrow> (jsstring \<times> jsstring) list \<Rightarrow> AudienceConfig \<Rightarrow> jsval option"
where
  "userValueOf env jar aud =
     (if aud_type aud = lit ''DEVICE'' then Some (JStr (deviceClass (userAgent env)))
      else if aud_type aud = lit ''BROWSER'' then Some (JStr (userAgent env))
      else if aud_type aud = lit ''QUERY_PARAM'' then
        Some (case map_of (searchParams env) (orEmpty (aud_key aud)) of
                None \<Rightarrow> JNull | Some v \<Rightarrow> JStr v)
      else if aud_type aud = lit ''COOKIE'' then
        Some (case map_of jar (orEmpty (aud_key aud)) of
                None \<Rightarrow> JNull | Some v \<Rightarrow> JStr v)
      else if aud_type aud = lit ''JS_VAR'' then Some (jsVars env (orEmpty (aud_key aud)))
      else None)"

definition checkAudience ::
  "PageEnv \<Rightarrow> (jsstring \<times> jsstring) list \<Rightarrow> AudienceConfig \<Rightarrow> js_error + bool"
where
  "checkAudience env jar aud =
     (case userValueOf env jar aud of
        None \<Rightarrow> Inr True
      | Some userValue \<Rightarrow>
          if userValue = JNull \<or> userValue = JUndefined then Inr False
          else
            (let u = js_String env userValue; v = js_String env (aud_value aud)
             in if aud_operator aud = lit ''IS'' then Inr (u = v)
                else if aud_operator aud = lit ''IS_NOT'' then Inr (u \<noteq> v)
                else if aud_operator aud = lit ''CONTAINS'' then Inr (js_includes u v)
                else if aud_operator aud = lit ''NOT_CONTAINS'' then Inr (\<not> js_includes u v)
                else if aud_operator aud = lit ''MATCHES_REGEX'' then
                  (case regexCompile env v of
                     None \<Rightarrow> Inl SyntaxError
                   | Some re \<Rightarrow> Inr (re u))
                else if aud_operator aud = lit ''GREATER_THAN'' then
                  Inr (numGreater env userValue (aud_value aud))
                else if aud_operator aud = lit ''LESS_THAN'' then
                  Inr (numLess env userValue (aud_value aud))
                else Inr True))"

text \<open>\<open>audiences.every(..)\<close> stops at the first predicate that fails or throws.\<close>

fun checkAudiences ::
  "PageEnv \<Rightarrow> (jsstring \<times> jsstring) list \<Rightarrow> AudienceConfig list \<Rightarrow> js_error + bool"
where
  "checkAudiences env jar [] = Inr True"
| "checkAudiences env jar (aud # rest) =
     (case checkAudience env jar aud of
        Inl e \<Rightarrow> Inl e
      | Inr ok \<Rightarrow> if ok then checkAudiences env jar rest else Inr False)"

text \<open>\<open>variant?.isControl ?? false\<close>, and the truth value of \<open>variant.isControl\<close>.\<close>

definition isControlOf :: "VariantConfig option \<Rightarrow> bool" where
  "isControlOf variant =
     (case variant of
        None \<Rightarrow> False
      | Some v \<Rightarrow> (case v_isControl v of None \<Rightarrow> False | Some b \<Rightarrow> b))"

text \<open>
  The loop body of \<open>processExperiments\<close> from "Apply changes" on: the changes of a
  variant that is found and is not the control are handed to \<open>applyChanges\<close>, the
  exposure is recorded, and the view is logged the first time this instance sees the
  experiment.
\<close>

definition viewExperiment ::
  "PageEnv \<Rightarrow> ExperimentConfig \<Rightarrow> jsstring \<Rightarrow> VariantConfig option \<Rightarrow> Tracker \<Rightarrow> Tracker"
where
  "viewExperiment env exp vId variant t =
     (let t1 = (case variant of
                  None \<Rightarrow> t
                | Some v \<Rightarrow>
                    if isControlOf (Some v) then t
                    else t\<lparr>appliedChanges := appliedChanges t @ changes v\<rparr>);
          t2 = recordExposure env (exp_id exp) vId t1
      in if exp_id exp \<in> activeExperiments t2 then t2
         else
           (let t3 = t2\<lparr>activeExperiments := insert (exp_id exp) (activeExperiments t2)\<rparr>;
                t4 = enqueueEvent env (lit ''EXPERIMENT_VIEW'')
                       [(lit ''experimentId'', JStr (exp_id exp)),
                        (lit ''experimentName'', optStr (exp_name exp)),
                        (lit ''variantId'', JStr vId),
                        (lit ''variantName'', optStr (Option.bind variant v_name)),
                        (lit ''isControl'', JBool (isControlOf variant))] t3
            in pushDataLayer
                 [(lit ''event'', JStr (lit ''ab_experiment_view'')),
                  (lit ''ab_test'',
                   JObj [(lit ''experiment_id'', JStr (exp_id exp)),
                         (lit ''experiment_name'', optStr (exp_name exp)),
                         (lit ''variant_id'', JStr vId),
                         (lit ''variant_name'', optStr (Option.bind variant v_name)),
                         (lit ''is_control'', JBool (isControlOf variant))])] t4))"

text \<open>
  One iteration of the loop of \<open>processExperiments\<close>. \<open>Inl\<close> is an exception (an
  invalid pattern, or \<open>bucket\<close> on an empty variant list); each is thrown before the
  iteration has written anything. \<open>Inr\<close> is the state at \<open>continue\<close> or at the end of
  the body.
\<close>

definition processExperiment :: "PageEnv \<Rightarrow> ExperimentConfig \<Rightarrow> Tracker \<Rightarrow> js_error + Tracker" where
  "processExperiment env exp t =
     (if exp_status exp = RUNNING then
        (case regexCompile env (exp_urlPattern exp) of
           None \<Rightarrow> Inl SyntaxError
         | Some regex \<Rightarrow>
             if regex (href env) \<or> regex (pathname env) then
               (case (case audiences exp of
                        None \<Rightarrow> Inr True
                      | Some auds \<Rightarrow> checkAudiences env (cookies (storage t)) auds) of
                  Inl e \<Rightarrow> Inl e
                | Inr matched \<Rightarrow>
                    if matched then
                      (let stored = map_option variantId (map_of (assignments t) (exp_id exp))
                       in if falsyStr stored then
                            (if isUserInSample (visitorId t) (exp_id exp) (trafficAllocation exp)
                             then
                               (case bucket (visitorId t) (exp_id exp) (variants exp) of
                                  Inl e \<Rightarrow> Inl e
                                | Inr vId \<Rightarrow>
                                    (let variant = find (\<lambda>v. v_id v = vId) (variants exp);
                                         asg = AList.update (exp_id exp)
                                                 \<lparr>variantId = vId,
                                                  variantName = Option.bind variant v_name,
                                                  experimentName = exp_name exp,
                                                  assignedAt = now env\<rparr>
                                                 (assignments t);
                                         t1 = t\<lparr>assignments := asg,
                                                storage := (storage t)\<lparr>ls_assignments := Some asg\<rparr>\<rparr>
                                     in Inr (viewExperiment env exp vId variant t1)))
                             else Inr t)
                          else
                            Inr (viewExperiment env exp (orEmpty stored)
                                   (find (\<lambda>v. v_id v = orEmpty stored) (variants exp)) t))
                    else Inr t)
             else Inr t)
      else Inr t)"

text \<open>
  The loop: an exception leaves it with what the earlier iterations wrote. The first
  component is the exception the promise is rejected with, if any.
\<close>

fun processExperimentsLoop ::
  "PageEnv \<Rightarrow> ExperimentConfig list \<Rightarrow> Tracker \<Rightarrow> js_error option \<times> Tracker"
where
  "processExperimentsLoop env [] t = (None, t)"
| "processExperimentsLoop env (exp # rest) t =
     (case processExperiment env exp t of
        Inl e \<Rightarrow> (Some e, t)
      | Inr t' \<Rightarrow> processExperimentsLoop env rest t')"

definition processExperiments :: "PageEnv \<Rightarrow> Tracker \<Rightarrow> js_error option \<times> Tracker" where
  "processExperiments env t =
     (case config t of
        None \<Rightarrow> (None, t)
      | Some cfg \<Rightarrow> processExperimentsLoop env (experiments cfg) t)"

subsection \<open>Goal tracking with attribution\<close>

definition attributedJson :: "AttributedExperiment \<Rightarrow> jsval" where
  "attributedJson e =
     JObj [(lit ''experimentId'', JStr (ae_experimentId e)),
           (lit ''experimentName'', optStr (ae_experimentName e)),
           (lit ''variantId'', JStr (ae_variantId e)),
           (lit ''variantName'', optStr (ae_variantName e))]"

definition dataLayerExperiment :: "AttributedExperiment \<Rightarrow> jsval" where
  "dataLayerExperiment e =
     JObj [(lit ''experiment_id'', JStr (ae_experimentId e)),
           (lit ''experiment_name'', optStr (ae_experimentName e)),
           (lit ''variant_id'', JStr (ae_variantId e)),
           (lit ''variant_name'', optStr (ae_variantName e))]"

definition goalSessionKey :: "GoalConfig \<Rightarrow> Tracker \<Rightarrow> jsstring" where
  "goalSessionKey goal t = goal_id goal @ lit ''_'' @ sessionId t"

text \<open>
  The end of \<open>tryRecordConversion\<close>, once the checks have passed: the key is added to
  \<open>trackedGoals\<close>, the envelope is queued and the data layer is told. An absent
  \<open>customData\<close> is the empty object.
\<close>

definition conversionData :: "GoalConfig \<Rightarrow> jsobj \<Rightarrow> AttributedExperiment list \<Rightarrow> jsobj" where
  "conversionData goal customData attributed =
     spread [(lit ''goalId'', JStr (goal_id goal)),
             (lit ''goalName'', optStr (goal_name goal)),
             (lit ''goalType'', JStr (goalTypeName (goal_type goal))),
             (lit ''attributedExperiments'', JArr (map attributedJson attributed))]
       customData"

definition recordConversion ::
  "PageEnv \<Rightarrow> GoalConfig \<Rightarrow> jsobj \<Rightarrow> AttributedExperiment list \<Rightarrow> Tracker \<Rightarrow> Tracker"
where
  "recordConversion env goal customData attributed t =
     (let t1 = t\<lparr>trackedGoals := insert (goalSessionKey goal t) (trackedGoals t)\<rparr>;
          t2 = enqueueEvent env (lit ''GOAL_CONVERSION'')
                 (conversionData goal customData attributed) t1
      in pushDataLayer
           (spread [(lit ''event'', JStr (lit ''ab_goal_conversion'')),
                    (lit ''ab_goal'',
                     JObj [(lit ''goal_id'', JStr (goal_id goal)),
                           (lit ''goal_name'', optStr (goal_name goal)),
                           (lit ''goal_type'', JStr (goalTypeName (goal_type goal)))]),
                    (lit ''ab_experiments'', JArr (map dataLayerExperiment attributed))]
              customData) t2)"

definition tryRecordConversion :: "PageEnv \<Rightarrow> GoalConfig \<Rightarrow> jsobj \<Rightarrow> Tracker \<Rightarrow> Tracker" where
  "tryRecordConversion env goal customData t =
     (if goalSessionKey goal t \<in> trackedGoals t then t
      else if hasAnyExposure t then
        (let attributedExperiments = getExposedExperiments t
         in case experimentIds goal of
              None \<Rightarrow> recordConversion env goal customData attributedExperiments t
            | Some ids \<Rightarrow>
                if 0 < length ids then
                  (let filtered = filter (\<lambda>e. ae_experimentId e \<in> set ids) attributedExperiments
                   in if length filtered = 0 then t
                      else recordConversion env goal customData filtered t)
                else recordConversion env goal customData attributedExperiments t)
      else t)"

definition updateActivity :: "PageEnv \<Rightarrow> Tracker \<Rightarrow> Tracker" where
  "updateActivity env t = t\<lparr>storage := (storage t)\<lparr>ls_lastActivity := Some (now env)\<rparr>\<rparr>"

text \<open>
  The delegated click and submit listeners; \<open>target\<close> is the element the event was
  dispatched on.
\<close>

definition handleGoalInteraction :: "PageEnv \<Rightarrow> nat \<Rightarrow> GoalType \<Rightarrow> Tracker \<Rightarrow> Tracker" where
  "handleGoalInteraction env target ty t =
     (case config t of
        None \<Rightarrow> t
      | Some cfg \<Rightarrow>
          fold (\<lambda>goal s.
                  if goal_type goal = ty \<and> \<not> falsyStr (goal_selector goal) then
                    (if domMatches env target (orEmpty (goal_selector goal))
                        \<or> domClosest env target (orEmpty (goal_selector goal))
                     then tryRecordConversion env goal [] s else s)
                  else s)
            (goals cfg) (updateActivity env t))"

text \<open>
  The scroll listener. \<open>reached s\<close> is \<open>scrollPercent >= parseInt(s, 10)\<close> for the scroll
  position at the time of the call.
\<close>

definition onScroll :: "PageEnv \<Rightarrow> (jsstring \<Rightarrow> bool) \<Rightarrow> Tracker \<Rightarrow> Tracker" where
  "onScroll env reached t =
     fold (\<lambda>goal s.
             if reached (if falsyStr (goal_selector goal) then lit ''50''
                         else orEmpty (goal_selector goal))
             then tryRecordConversion env goal [] s else s)
       (scrollGoals t) t"

text \<open>The intersection observer's callback for one entry that is intersecting.\<close>

definition onIntersect :: "PageEnv \<Rightarrow> nat \<Rightarrow> Tracker \<Rightarrow> Tracker" where
  "onIntersect env target t =
     fold (\<lambda>goal s.
             if domMatches env target (orEmpty (goal_selector goal))
             then tryRecordConversion env goal [] s else s)
       (visibilityGoals t) t"

text \<open>\<open>checkPageviewGoals\<close>: an invalid \<open>urlPattern\<close> throws out of the \<open>forEach\<close>.\<close>

fun checkPageviewLoop ::
  "PageEnv \<Rightarrow> GoalConfig list \<Rightarrow> Tracker \<Rightarrow> js_error option \<times> Tracker"
where
  "checkPageviewLoop env [] t = (None, t)"
| "checkPageviewLoop env (goal # rest) t =
     (if goal_type goal = PAGE_VIEW \<and> \<not> falsyStr (goal_urlPattern goal) then
        (case regexCompile env (orEmpty (goal_urlPattern goal)) of
           None \<Rightarrow> (Some SyntaxError, t)
         | Some regex \<Rightarrow>
             if regex (href env)
             then checkPageviewLoop env rest (tryRecordConversion env goal [] t)
             else checkPageviewLoop env rest t)
      else checkPageviewLoop env rest t)"

definition checkPageviewGoals :: "PageEnv \<Rightarrow> Tracker \<Rightarrow> js_error option \<times> Tracker" where
  "checkPageviewGoals env t =
     (case config t of
        None \<Rightarrow> (None, t)
      | Some cfg \<Rightarrow> checkPageviewLoop env (goals cfg) t)"

definition setupGoals :: "PageEnv \<Rightarrow> Tracker \<Rightarrow> js_error option \<times> Tracker" where
  "setupGoals env t =
     (case config t of
        None \<Rightarrow> (None, t)
      | Some cfg \<Rightarrow>
          checkPageviewGoals env
            (t\<lparr>scrollGoals := filter (\<lambda>g. goal_type g = SCROLL) (goals cfg),
               visibilityGoals :=
                 filter (\<lambda>g. goal_type g = ELEMENT_VISIBILITY \<and> \<not> falsyStr (goal_selector g))
                   (goals cfg)\<rparr>))"

text \<open>The public \<open>trackEvent(eventName, data)\<close>.\<close>

definition trackEvent :: "PageEnv \<Rightarrow> jsstring \<Rightarrow> jsobj \<Rightarrow> Tracker \<Rightarrow> Tracker" where
  "trackEvent env name data t =
     (if hasAnyExposure t then
        (let exposedExperiments = getExposedExperiments t;
             t1 = (case config t of
                     None \<Rightarrow> t
                   | Some cfg \<Rightarrow>
                       fold (\<lambda>goal s.
                               if goal_type goal = CUSTOM_EVENT \<and> eventName goal = Some name
                               then tryRecordConversion env goal data s else s)
                         (goals cfg) t);
             t2 = pushDataLayer
                    (spread [(lit ''event'', JStr name),
                             (lit ''ab_experiments'',
                              JArr (map dataLayerExperiment exposedExperiments))] data) t1
         in enqueueEvent env (lit ''CUSTOM_EVENT'')
              (spread [(lit ''eventName'', JStr name),
                       (lit ''attributedExperiments'',
                        JArr (map attributedJson exposedExperiments))] data) t2)
      else t)"

text \<open>
  \<open>handleUrlChange\<close> (popstate, pushState, replaceState): the rejection of
  \<open>processExperiments\<close> is caught and logged, an exception of \<open>checkPageviewGoals\<close> is
  not.
\<close>

definition handleUrlChange :: "PageEnv \<Rightarrow> Tracker \<Rightarrow> js_error option \<times> Tracker" where
  "handleUrlChange env t = checkPageviewGoals env (snd (processExperiments env t))"

subsection \<open>Initialization\<close>

text \<open>The outcome of \<open>fetch(configUrl)\<close> followed by \<open>res.json()\<close>.\<close>

datatype FetchResult = FetchFailed | FetchOk ProjectConfig

definition loadConfig :: "PageEnv \<Rightarrow> FetchResult \<Rightarrow> Tracker \<Rightarrow> Tracker" where
  "loadConfig env fetched t =
     (let cached = ls_configCache (storage t)
      in if (case cached of None \<Rightarrow> False | Some c \<Rightarrow> now env - fst c < 60 * 1000)
         then t\<lparr>config := map_option snd cached\<rparr>
         else
           (case fetched of
              FetchOk data \<Rightarrow>
                t\<lparr>config := Some data,
                  storage := (storage t)\<lparr>ls_configCache := Some (now env, data)\<rparr>\<rparr>
            | FetchFailed \<Rightarrow>
                (case cached of
                   None \<Rightarrow> t
                 | Some c \<Rightarrow> t\<lparr>config := Some (snd c)\<rparr>)))"

text \<open>
  \<open>init\<close>. The body of its \<open>try\<close> gives the exception it ends with, if any; the \<open>catch\<close>
  logs it, and the \<open>finally\<close> reveals the page. The first component of the result is
  what \<open>init\<close> itself throws to its caller.
\<close>

definition initBody :: "PageEnv \<Rightarrow> FetchResult \<Rightarrow> Tracker \<Rightarrow> js_error option \<times> Tracker" where
  "initBody env fetched t =
     (let t1 = loadConfig env fetched t
      in case config t1 of
           None \<Rightarrow> (None, revealPage t1)
         | Some cfg \<Rightarrow>
             (case processExperiments env t1 of
                (Some e, t2) \<Rightarrow> (Some e, t2)
              | (None, t2) \<Rightarrow> setupGoals env t2))"

definition init :: "PageEnv \<Rightarrow> FetchResult \<Rightarrow> Tracker \<Rightarrow> js_error option \<times> Tracker" where
  "init env fetched t =
     (case initBody env fetched t of
        (caught, t') \<Rightarrow> (None, revealPage t'))"

subsection \<open>Identity and construction\<close>

definition resolveVisitorId :: "PageEnv \<Rightarrow> Storage \<Rightarrow> jsstring \<times> Storage" where
  "resolveVisitorId env st =
     (let fromCookie = map_of (cookies st) (lit ''ab_ent_vid'');
          stored = (if falsyStr fromCookie then ls_visitorId st else fromCookie);
          r = (if falsyStr stored
               then (generateUUID env (uuidCount st), st\<lparr>uuidCount := Suc (uuidCount st)\<rparr>)
               else (orEmpty stored, st))
      in (fst r,
          (snd r)\<lparr>cookies := AList.update (lit ''ab_ent_vid'') (fst r) (cookies (snd r)),
                  ls_visitorId := Some (fst r)\<rparr>))"

text \<open>
  \<open>resolveSessionId\<close> runs while \<open>this.sessionId\<close> is still unassigned, so the
  SESSION_START envelope carries \<open>undefined\<close> there.
\<close>

definition resolveSessionId :: "PageEnv \<Rightarrow> Tracker \<Rightarrow> jsstring \<times> Tracker" where
  "resolveSessionId env t =
     (let lastActive = (case ls_lastActivity (storage t) of None \<Rightarrow> 0 | Some x \<Rightarrow> x);
          sid = ss_sessionId (storage t);
          r = (if falsyStr sid \<or> now env - lastActive > 30 * 60 * 1000
               then
                 (let fresh = generateUUID env (uuidCount (storage t));
                      t1 = t\<lparr>storage := (storage t)\<lparr>uuidCount := Suc (uuidCount (storage t)),
                                                    ss_sessionId := Some fresh\<rparr>\<rparr>
                  in (fresh,
                      enqueueWith env JUndefined (lit ''SESSION_START'')
                        [(lit ''referrer'', JStr (referrer env))] t1))
               else (orEmpty sid, t))
      in (fst r, updateActivity env (snd r)))"

text \<open>
  The constructor up to the call of \<open>init\<close>: the page is hidden, the identity is
  resolved, the stored maps are read, and expired exposures are dropped. Every other
  field starts from its initializer.
\<close>

definition newTracker :: "PageEnv \<Rightarrow> InitOptions \<Rightarrow> Storage \<Rightarrow> Tracker" where
  "newTracker env opts st =
     (let v = resolveVisitorId env st;
          t0 = \<lparr>projectId = opt_projectId opts,
                ingestUrl = opt_ingestUrl opts,
                configUrl = opt_configUrl opts,
                visitorId = fst v,
                sessionId = [],
                assignments = [],
                exposures = [],
                config = None,
                eventQueue = [],
                activeExperiments = {},
                antiFlickerTimeout =
                  (case opt_antiFlickerTimeout opts of None \<Rightarrow> 1500 | Some x \<Rightarrow> x),
                attributionWindowDays =
                  (case opt_attributionWindowDays opts of None \<Rightarrow> 30 | Some x \<Rightarrow> x),
                isRevealed = False,
                trackedGoals = {},
                scrollGoals = [],
                visibilityGoals = [],
                pageHidden = True,
                appliedChanges = [],
                storage = snd v\<rparr>;
          s = resolveSessionId env t0;
          t1 = (snd s)\<lparr>sessionId := fst s,
                       assignments :=
                         (case ls_assignments (storage (snd s)) of None \<Rightarrow> [] | Some a \<Rightarrow> a),
                       exposures :=
                         (case ls_exposures (storage (snd s)) of None \<Rightarrow> [] | Some e \<Rightarrow> e)\<rparr>
      in cleanupExpiredExposures env t1)"

text \<open>
  Leaving the page fires \<open>pagehide\<close>, whose listener flushes the queue. \<open>leavePage\<close> is
  what the next page finds: the same stores, and a \<open>window.dataLayer\<close> that is empty
  again, since it belongs to the page. The next page constructs a new instance over it.
\<close>

definition leavePage :: "Tracker \<Rightarrow> Storage" where
  "leavePage t = (storage (flushEvents t))\<lparr>dataLayer := []\<rparr>"

definition reload :: "PageEnv \<Rightarrow> InitOptions \<Rightarrow> Tracker \<Rightarrow> Tracker" where
  "reload env opts t = newTracker env opts (leavePage t)"

subsection \<open>Reading the outbound events\<close>

text \<open>Every envelope the instance has queued and the stores have seen posted, oldest first.\<close>

definition enqueued :: "Tracker \<Rightarrow> jsval list" where
  "enqueued t = concat (posted (storage t)) @ eventQueue t"

definition field :: "jsval \<Rightarrow> jsstring \<Rightarrow> jsval" where
  "field v k = (case v of JObj kvs \<Rightarrow> (case map_of kvs k of None \<Rightarrow> JUndefined | Some x \<Rightarrow> x)
                | _ \<Rightarrow> JUndefined)"

definition isGoalConversion :: "jsstring \<Rightarrow> jsstring \<Rightarrow> jsval \<Rightarrow> bool" where
  "isGoalConversion goalId sid e =
     (field e (lit ''eventType'') = JStr (lit ''GOAL_CONVERSION'')
      \<and> field e (lit ''goalId'') = JStr goalId
      \<and> field e (lit ''sessionId'') = JStr sid)"


subsection \<open>The sources of a conversion attempt\<close>

text \<open>
  The six ways the SDK reaches \<open>tryRecordConversion\<close>: the delegated click and submit
  listeners, the scroll listener, the intersection observer, \<open>checkPageviewGoals\<close>,
  and \<open>trackEvent\<close> for a custom event.
\<close>

datatype trigger =
    ClickOn nat
  | SubmitOn nat
  | ScrollTo "jsstring \<Rightarrow> bool"
  | Intersecting nat
  | PageViewCheck
  | CustomEvent jsstring jsobj

fun fire :: "PageEnv \<Rightarrow> trigger \<Rightarrow> Tracker \<Rightarrow> Tracker" where
  "fire env (ClickOn target) t = handleGoalInteraction env target CLICK t"
| "fire env (SubmitOn target) t = handleGoalInteraction env target FORM_SUBMIT t"
| "fire env (ScrollTo reached) t = onScroll env reached t"
| "fire env (Intersecting target) t = onIntersect env target t"
| "fire env PageViewCheck t = snd (checkPageviewGoals env t)"
| "fire env (CustomEvent name data) t = trackEvent env name data t"

text \<open>
  The list \<open>tryRecordConversion\<close> attributes a conversion of \<open>goal\<close> to: the exposed
  experiments, filtered by the goal's \<open>experimentIds\<close> when that list is present and
  not empty.
\<close>

definition attributedFor :: "GoalConfig \<Rightarrow> Tracker \<Rightarrow> AttributedExperiment list" where
  "attributedFor goal t =
     (case experimentIds goal of
        None \<Rightarrow> getExposedExperiments t
      | Some ids \<Rightarrow>
          if ids = [] then getExposedExperiments t
          else filter (\<lambda>e. ae_experimentId e \<in> set ids) (getExposedExperiments t))"

text \<open>Whether the goal names experiments to restrict the attribution to.\<close>

definition restricted :: "GoalConfig \<Rightarrow> bool" where
  "restricted goal = (case experimentIds goal of None \<Rightarrow> False | Some ids \<Rightarrow> ids \<noteq> [])"

text \<open>
  The data of a custom event is spread into the envelope after the SDK's own fields;
  \<open>plainData\<close> holds when it names none of the fields the properties below read.
\<close>

definition plainData :: "jsobj \<Rightarrow> bool" where
  "plainData d =
     (map_of d (lit ''eventType'') = None \<and> map_of d (lit ''goalId'') = None
      \<and> map_of d (lit ''sessionId'') = None
      \<and> map_of d (lit ''attributedExperiments'') = None)"

subsection \<open>The bucketing rule as the specification words it\<close>

text \<open>
  The specification's hash: a rolling hash over 32-bit words, shift-5 minus self plus
  the char code, read as a signed integer, absolute value taken.
\<close>

definition hash32_spec :: "jsstring \<Rightarrow> int" where
  "hash32_spec str =
     \<bar>sint (foldl (\<lambda>h c. push_bit 5 h - h + ucast c) (0 :: 32 word) str)\<bar>"

text \<open>
  The specification's choice: the first variant, in declared order, whose cumulative
  weight exceeds the hash modulo 100, and the first declared variant if there is none.
\<close>

definition bucket_spec :: "jsstring \<Rightarrow> jsstring \<Rightarrow> VariantConfig list \<Rightarrow> jsstring" where
  "bucket_spec vis experimentId vs =
     (let b = hash32_spec (vis @ experimentId) mod 100
      in case find (\<lambda>i. b < sum_list (map trafficWeight (take (Suc i) vs)))
                [0 ..< length vs] of
           Some i \<Rightarrow> v_id (vs ! i)
         | None \<Rightarrow> v_id (hd vs))"

subsection \<open>Concrete inputs\<close>

definition exVariantA :: VariantConfig where
  "exVariantA = \<lparr>v_id = lit ''A'', v_name = Some (lit ''control''), v_isControl = Some True,
                  trafficWeight = 10, changes = []\<rparr>"

definition exChange :: ChangeInstruction where
  "exChange = \<lparr>ch_selector = lit ''h1'', ch_action = lit ''setText'',
                ch_value = Some (lit ''Hello''), ch_attributeName = None,
                ch_allowInnerHTML = None, ch_waitForSelector = None\<rparr>"

definition exVariantB :: VariantConfig where
  "exVariantB = \<lparr>v_id = lit ''B'', v_name = None, v_isControl = None,
                  trafficWeight = 90, changes = [exChange]\<rparr>"

text \<open>
  A page of a shop at a given time. Its regular expressions are substring tests,
  \<open>(\<close> is the one invalid pattern, and element 1 is the only one that matches the
  selector \<open>#buy\<close>.
\<close>

definition exEnv :: "int \<Rightarrow> PageEnv" where
  "exEnv time =
     \<lparr>href = lit ''https://shop.example/'', pathname = lit ''/'', searchParams = [],
      userAgent = lit ''Mozilla/5.0'', referrer = [], jsVars = (\<lambda>k. JUndefined), now = time,
      regexCompile = (\<lambda>p. if p = lit ''('' then None else Some (\<lambda>s. js_includes s p)),
      stringOfValue = (\<lambda>v. []), numGreater = (\<lambda>a b. False), numLess = (\<lambda>a b. False),
      domMatches = (\<lambda>el sel. el = 1 \<and> sel = lit ''#buy''), domClosest = (\<lambda>el sel. False),
      generateUUID = (\<lambda>n. lit ''uuid-'' @ [of_nat n + 48])\<rparr>"

definition exStorage :: Storage where
  "exStorage =
     \<lparr>cookies = [], ls_visitorId = None, ls_assignments = None, ls_exposures = None,
      ls_configCache = None, ls_lastActivity = None, ss_sessionId = None, posted = [],
      dataLayer = [], uuidCount = 0\<rparr>"

definition exOpts :: InitOptions where
  "exOpts =
     \<lparr>opt_projectId = lit ''p1'', opt_ingestUrl = lit ''/ingest'',
      opt_configUrl = lit ''/config'', opt_debug = None, opt_antiFlickerTimeout = None,
      opt_attributionWindowDays = None\<rparr>"

definition exExperiment :: ExperimentConfig where
  "exExperiment =
     \<lparr>exp_id = lit ''e1'', exp_name = Some (lit ''Headline''), exp_status = RUNNING,
      trafficAllocation = 100, exp_urlPattern = lit ''shop'', audiences = None,
      variants = [exVariantA, exVariantB]\<rparr>"

definition exGoal :: GoalConfig where
  "exGoal =
     \<lparr>goal_id = lit ''g1'', goal_name = None, goal_type = CLICK,
      goal_selector = Some (lit ''#buy''), goal_urlPattern = None, eventName = None,
      experimentIds = None\<rparr>"

definition exConfig :: ProjectConfig where
  "exConfig =
     \<lparr>cfg_projectId = lit ''p1'', experiments = [exExperiment], goals = [exGoal],
      cfg_version = None\<rparr>"

text \<open>
  A first visit: nothing is stored, the configuration is fetched at time 1000, and the
  experiment is viewed. Then the visitor clicks the button at time 2000.
\<close>

definition exViewed :: Tracker where
  "exViewed =
     snd (init (exEnv 1000) (FetchOk exConfig) (newTracker (exEnv 1000) exOpts exStorage))"

definition firstLoad :: Tracker where
  "firstLoad = fire (exEnv 2000) (ClickOn 1) exViewed"

text \<open>
  The page is reloaded at time 4000, inside the session and while the cached
  configuration is fresh, and the visitor clicks the button again at time 5000.
\<close>

definition exReloaded :: Tracker where
  "exReloaded = snd (init (exEnv 4000) FetchFailed (reload (exEnv 4000) exOpts firstLoad))"

definition secondLoad :: Tracker where
  "secondLoad = fire (exEnv 5000) (ClickOn 1) exReloaded"

text \<open>
  The same visitor landing on a page the experiment does not target: the configuration
  is loaded but nothing is viewed. A later navigation inside the page leads to the shop.
\<close>

definition exBlogEnv :: "int \<Rightarrow> PageEnv" where
  "exBlogEnv time = (exEnv time)\<lparr>href := lit ''https://blog.example/''\<rparr>"

definition exUnexposed :: Tracker where
  "exUnexposed =
     snd (init (exBlogEnv 1000) (FetchOk exConfig) (newTracker (exBlogEnv 1000) exOpts exStorage))"

definition exNavigated :: Tracker where
  "exNavigated = snd (handleUrlChange (exEnv 1800) exUnexposed)"




subsection \<open>Auxiliary notions for the properties\<close>

text \<open>The keys of the entries that are older than the window at time \<open>nowMs\<close>.\<close>

definition expiredKeys :: "int \<Rightarrow> int \<Rightarrow> (jsstring \<times> Exposure) list \<Rightarrow> jsstring set" where
  "expiredKeys nowMs windowMs entries =
     fst ` set (filter (\<lambda>p. nowMs - exposedAt (snd p) > windowMs) entries)"

text \<open>
  The five types the first \<open>switch\<close> of \<open>checkAudiences\<close> knows, and the seven operators
  the second one knows.
\<close>

definition knownType :: "jsstring \<Rightarrow> bool" where
  "knownType ty =
     (ty = lit ''DEVICE'' \<or> ty = lit ''BROWSER'' \<or> ty = lit ''QUERY_PARAM''
      \<or> ty = lit ''COOKIE'' \<or> ty = lit ''JS_VAR'')"

definition knownOperator :: "jsstring \<Rightarrow> bool" where
  "knownOperator op =
     (op = lit ''IS'' \<or> op = lit ''IS_NOT'' \<or> op = lit ''CONTAINS''
      \<or> op = lit ''NOT_CONTAINS'' \<or> op = lit ''MATCHES_REGEX''
      \<or> op = lit ''GREATER_THAN'' \<or> op = lit ''LESS_THAN'')"

text \<open>A predicate on a cookie with an operator the SDK does not know.\<close>

definition exAudience :: AudienceConfig where
  "exAudience =
     \<lparr>aud_type = lit ''COOKIE'', aud_key = Some (lit ''plan''),
      aud_operator = lit ''STARTS_WITH'', aud_value = JStr (lit ''pro'')\<rparr>"




definition exConfigReweighted :: ProjectConfig where
  "exConfigReweighted =
     exConfig\<lparr>experiments :=
       [exExperiment\<lparr>variants := [exVariantA\<lparr>trafficWeight := 90\<rparr>,
                                   exVariantB\<lparr>trafficWeight := 10\<rparr>]\<rparr>]\<rparr>"

text \<open>
  A configuration whose only variant has the empty string as its id, a first visit
  under it, and a reload after the cache has gone stale, when the configuration fetched
  is \<open>exConfig\<close>.
\<close>

definition exConfigBlank :: ProjectConfig where
  "exConfigBlank =
     exConfig\<lparr>experiments :=
       [exExperiment\<lparr>variants :=
          [\<lparr>v_id = [], v_name = Some (lit ''only''), v_isControl = None,
            trafficWeight = 100, changes = []\<rparr>]\<rparr>]\<rparr>"

definition exBlankViewed :: Tracker where
  "exBlankViewed =
     snd (init (exEnv 1000) (FetchOk exConfigBlank) (newTracker (exEnv 1000) exOpts exStorage))"

definition exBlankReloaded :: Tracker where
  "exBlankReloaded =
     snd (init (exEnv 100000) (FetchOk exConfig) (reload (exEnv 100000) exOpts exBlankViewed))"

subsection \<open>Reading a concrete state\<close>

text \<open>
  For every envelope queued or posted so far, oldest first: its event type, session
  id, goal id and experiment id.
\<close>

definition eventLog :: "Tracker \<Rightarrow> (jsval \<times> jsval \<times> jsval \<times> jsval) list" where
  "eventLog t =
     map (\<lambda>e. (field e (lit ''eventType''), field e (lit ''sessionId''),
               field e (lit ''goalId''), field e (lit ''experimentId'')))
       (enqueued t)"

text \<open>The fields of a state that the examples below look at.\<close>

record Digest =
  d_visitorId :: jsstring
  d_sessionId :: jsstring
  d_config :: "ProjectConfig option"
  d_assignments :: "(jsstring \<times> Assignment) list"
  d_exposures :: "(jsstring \<times> Exposure) list"
  d_activeExperiments :: "jsstring set"
  d_trackedGoals :: "jsstring set"
  d_attributionWindowDays :: int
  d_cookies :: "(jsstring \<times> jsstring) list"
  d_ls_assignments :: "(jsstring \<times> Assignment) list option"
  d_events :: "(jsval \<times> jsval \<times> jsval \<times> jsval) list"

definition digest :: "Tracker \<Rightarrow> Digest" where
  "digest t =
     \<lparr>d_visitorId = visitorId t, d_sessionId = sessionId t, d_config = config t,
      d_assignments = assignments t, d_exposures = exposures t,
      d_activeExperiments = activeExperiments t, d_trackedGoals = trackedGoals t,
      d_attributionWindowDays = attributionWindowDays t,
      d_cookies = cookies (storage t), d_ls_assignments = ls_assignments (storage t),
      d_events = eventLog t\<rparr>"

text \<open>The stored records and the log entries of the examples.\<close>

definition exAssignment :: "int \<Rightarrow> Assignment" where
  "exAssignment time =
     \<lparr>variantId = lit ''B'', variantName = None, experimentName = Some (lit ''Headline''),
      assignedAt = time\<rparr>"

definition exExposure :: "int \<Rightarrow> int \<Rightarrow> Exposure" where
  "exExposure time n = \<lparr>exposure_variantId = lit ''B'', exposedAt = time, exposureCount = n\<rparr>"

definition exBlankAssignment :: Assignment where
  "exBlankAssignment =
     \<lparr>variantId = [], variantName = Some (lit ''only''),
      experimentName = Some (lit ''Headline''), assignedAt = 1000\<rparr>"

definition evSessionStart :: "jsval \<times> jsval \<times> jsval \<times> jsval" where
  "evSessionStart = (JStr (lit ''SESSION_START''), JUndefined, JUndefined, JUndefined)"

definition evView :: "jsval \<times> jsval \<times> jsval \<times> jsval" where
  "evView = (JStr (lit ''EXPERIMENT_VIEW''), JStr (lit ''uuid-1''), JUndefined, JStr (lit ''e1''))"

definition evConversion :: "jsval \<times> jsval \<times> jsval \<times> jsval" where
  "evConversion =
     (JStr (lit ''GOAL_CONVERSION''), JStr (lit ''uuid-1''), JStr (lit ''g1''), JUndefined)"


definition windowMs :: "InitOptions \<Rightarrow> int" where
  "windowMs opts =
     (case opt_attributionWindowDays opts of None \<Rightarrow> 30 | Some x \<Rightarrow> x) * 24 * 60 * 60 * 1000"





section \<open>Properties\<close>

subsection \<open>The hash and the 32-bit words\<close>

lemma toInt32_sint: "toInt32 x = sint (word_of_int x :: 32 word)"
  by (simp add: toInt32_def sint_sbintrunc' signed_take_bit_eq_take_bit_shift take_bit_eq_mod)

lemma word_of_toInt32: "(word_of_int (toInt32 x) :: 32 word) = word_of_int x"
  by (simp add: toInt32_sint)

lemma hash_step_word:
  "(word_of_int (toInt32 (shiftLeft5 h - h + uint c)) :: 32 word)
     = push_bit 5 (word_of_int h) - word_of_int h + ucast c"
proof -
  have "(word_of_int (shiftLeft5 h) :: 32 word) = word_of_int (toInt32 h * 32)"
    unfolding shiftLeft5_def by (rule word_of_toInt32)
  also have "\<dots> = word_of_int (toInt32 h) * 32"
    by simp
  also have "\<dots> = push_bit 5 (word_of_int h)"
    by (simp add: word_of_toInt32 push_bit_eq_mult)
  finally have "(word_of_int (shiftLeft5 h) :: 32 word) = push_bit 5 (word_of_int h)" .
  moreover have "(word_of_int (uint c) :: 32 word) = ucast c"
    by (simp only: ucast_eq)
  ultimately show ?thesis
    by (simp only: word_of_toInt32 wi_hom_add [symmetric] wi_hom_sub [symmetric])
qed

lemma hashCode_loop_word:
  "hashCode_loop (sint (w :: 32 word)) str
     = sint (foldl (\<lambda>h c. push_bit 5 h - h + ucast c) w str)"
proof (induction str arbitrary: w)
  case Nil
  then show ?case by simp
next
  case (Cons c str)
  let ?w' = "push_bit 5 w - w + ucast c :: 32 word"
  have "toInt32 (shiftLeft5 (sint w) - sint w + uint c) = sint ?w'"
    using hash_step_word [of "sint w" c] by (simp add: toInt32_sint)
  then show ?case using Cons.IH [of ?w'] by simp
qed

lemma hashCode_eq_spec: "hashCode str = hash32_spec str"
  using hashCode_loop_word [of 0 str] by (simp add: hashCode_def hash32_spec_def)

lemma hashCode_nonneg: "0 \<le> hashCode str"
  by (simp add: hashCode_def)

lemma js_rem_nonneg: "0 \<le> a \<Longrightarrow> js_rem a 100 = a mod 100"
  by (cases "a = 0") (simp_all add: js_rem_def)

lemma js_rem_hashCode: "js_rem (hashCode str) 100 = hashCode str mod 100"
  by (rule js_rem_nonneg [OF hashCode_nonneg])

subsection \<open>Bucketing\<close>

lemma find_map_list: "find P (map f xs) = map_option f (find (P \<circ> f) xs)"
  by (induction xs) simp_all

lemma find_upt_Suc:
  "find P [0 ..< Suc n] = (if P 0 then Some 0 else map_option Suc (find (P \<circ> Suc) [0 ..< n]))"
proof -
  have "[0 ..< Suc n] = 0 # map Suc [0 ..< n]"
    by (simp add: upt_conv_Cons map_Suc_upt del: upt_Suc)
  then show ?thesis by (simp add: find_map_list del: upt_Suc)
qed

lemma bucket_loop_find:
  "bucket_loop hash w vs =
     map_option (\<lambda>i. v_id (vs ! i))
       (find (\<lambda>i. js_rem hash 100 < w + sum_list (map trafficWeight (take (Suc i) vs)))
          [0 ..< length vs])"
proof (induction vs arbitrary: w)
  case Nil
  then show ?case by simp
next
  case (Cons v vs)
  show ?case
    by (simp add: find_upt_Suc Cons.IH Let_def option.map_comp comp_def add.assoc del: upt_Suc)
qed

text \<open>
  Claim C4. For a non-empty variant list, \<open>bucket\<close> returns what the specification
  describes: with the 32-bit signed rolling hash of \<open>visitorId + experimentId\<close>
  (\<open>(hash << 5) - hash + charCode\<close>, truncated to 32 bits, absolute value taken), the
  first variant in declared order whose cumulative \<open>trafficWeight\<close> strictly exceeds the
  hash modulo 100, and the first declared variant if no cumulative weight exceeds it.
\<close>

theorem bucket_refines_spec:
  assumes "vs \<noteq> []"
  shows "bucket vis experimentId vs = Inr (bucket_spec vis experimentId vs)"
proof -
  obtain v rest where vs: "vs = v # rest"
    using assms by (cases vs) auto
  have r: "js_rem (hashCode (vis @ experimentId)) 100 = hash32_spec (vis @ experimentId) mod 100"
    using js_rem_hashCode [of "vis @ experimentId"] by (simp add: hashCode_eq_spec)
  show ?thesis
    unfolding bucket_def bucket_spec_def Let_def bucket_loop_find r
    by (simp add: vs split: option.splits)
qed

theorem bucket_refines_spec_witness:
  "[exVariantA, exVariantB] \<noteq> []
   \<and> bucket (lit ''zzzz'') (lit ''zzzz'') [exVariantA, exVariantB]
       = Inr (bucket_spec (lit ''zzzz'') (lit ''zzzz'') [exVariantA, exVariantB])
   \<and> hash32_spec (lit ''zzzz'' @ lit ''zzzz'') = 1910022912
   \<and> bucket_spec (lit ''zzzz'') (lit ''zzzz'') [exVariantA, exVariantB] = lit ''B''
   \<and> bucket (lit ''zzzz'') (lit ''zzzz'') [exVariantA] = Inr (lit ''A'')"
proof -
  have ne: "[exVariantA, exVariantB] \<noteq> []" by simp
  have h: "hash32_spec (lit ''zzzz'' @ lit ''zzzz'') = 1910022912"
    unfolding hashCode_eq_spec [symmetric] by code_simp
  have b: "bucket_spec (lit ''zzzz'') (lit ''zzzz'') [exVariantA, exVariantB] = lit ''B''"
    by (simp add: bucket_spec_def h exVariantA_def exVariantB_def)
  have a: "bucket (lit ''zzzz'') (lit ''zzzz'') [exVariantA] = Inr (lit ''A'')"
    using bucket_refines_spec [of "[exVariantA]" "lit ''zzzz''" "lit ''zzzz''"]
    by (simp add: bucket_spec_def h exVariantA_def)
  show ?thesis
    using bucket_refines_spec [OF ne, of "lit ''zzzz''" "lit ''zzzz''"] ne h b a by simp
qed

text \<open>
  Claim C6. The sampling gate admits a visitor exactly when the hash of
  \<open>visitorId + experimentId + "alloc"\<close> modulo 100 is below the allocation, so a
  visitor admitted at allocation \<open>A1\<close> is admitted at every larger allocation \<open>A2\<close>.
\<close>

theorem isUserInSample_mono:
  assumes "A1 < A2" and "isUserInSample vis experimentId A1"
  shows "isUserInSample vis experimentId A2
         \<and> hashCode (vis @ experimentId @ lit ''alloc'') mod 100 < A1
         \<and> hashCode (vis @ experimentId @ lit ''alloc'') = hash32_spec (vis @ experimentId @ lit ''alloc'')"
proof -
  have "hashCode (vis @ experimentId @ lit ''alloc'') mod 100 < A1"
    using assms(2) by (simp add: isUserInSample_def Let_def js_rem_hashCode)
  then show ?thesis
    using assms(1) by (simp add: isUserInSample_def Let_def js_rem_hashCode hashCode_eq_spec [symmetric])
qed

theorem isUserInSample_mono_witness:
  "(80 :: int) < 90 \<and> isUserInSample (lit ''zzzz'') (lit ''zzz'') 80
   \<and> isUserInSample (lit ''zzzz'') (lit ''zzz'') 90
   \<and> \<not> isUserInSample (lit ''zzzz'') (lit ''zzz'') 75"
proof -
  have h: "hashCode (lit ''zzzz'' @ lit ''zzz'' @ lit ''alloc'') mod 100 = 75"
    by code_simp
  have a: "isUserInSample (lit ''zzzz'') (lit ''zzz'') 80"
    by (simp add: isUserInSample_def Let_def js_rem_hashCode h)
  have n: "\<not> isUserInSample (lit ''zzzz'') (lit ''zzz'') 75"
    by (simp add: isUserInSample_def Let_def js_rem_hashCode h)
  show ?thesis
    using isUserInSample_mono [of 80 90 "lit ''zzzz''" "lit ''zzz''"] a n by simp
qed

subsection \<open>Literals, objects and the queue\<close>

lemma lit_inj: "lit a = lit b \<longleftrightarrow> a = b"
proof -
  have "inj (\<lambda>c :: char. (of_nat (of_char c) :: 16 word))"
  proof (rule injI)
    fix x y :: char
    assume "(of_nat (of_char x) :: 16 word) = of_nat (of_char y)"
    then have "take_bit 16 (of_char x :: nat) = take_bit 16 (of_char y :: nat)"
      by (simp add: word_of_nat_eq_iff)
    moreover have "(of_char x :: nat) < 2 ^ 16"
      by (rule less_trans [OF nat_of_char_less_256]) simp
    moreover have "(of_char y :: nat) < 2 ^ 16"
      by (rule less_trans [OF nat_of_char_less_256]) simp
    ultimately have "(of_char x :: nat) = of_char y"
      by (simp add: take_bit_nat_eq_self)
    then show "x = y" by simp
  qed
  then show ?thesis
    unfolding lit_def by (simp add: inj_map_eq_map)
qed

lemma map_of_spread_other:
  "k \<notin> fst ` set data \<Longrightarrow> map_of (spread obj data) k = map_of obj k"
  unfolding spread_def
  by (induction data arbitrary: obj) (auto simp: update_conv')

lemma enqueued_flushEvents: "enqueued (flushEvents t) = enqueued t"
  by (simp add: enqueued_def flushEvents_def)

lemma enqueued_enqueueWith:
  "enqueued (enqueueWith env sid ty data t) = enqueued t @ [envelope env t sid ty data]"
  by (simp add: enqueueWith_def Let_def enqueued_flushEvents) (simp add: enqueued_def)

lemma enqueued_enqueueEvent:
  "enqueued (enqueueEvent env ty data t)
     = enqueued t @ [envelope env t (JStr (sessionId t)) ty data]"
  by (simp add: enqueueEvent_def enqueued_enqueueWith)

lemma enqueued_pushDataLayer: "enqueued (pushDataLayer d t) = enqueued t"
  by (simp add: enqueued_def pushDataLayer_def)


lemma map_of_spread: "map_of (spread obj data) = map_of obj ++ map_of (rev data)"
  unfolding spread_def
  by (induction data arbitrary: obj) (simp_all add: update_conv' map_add_upd_left)

lemma keys_spread: "fst ` set (spread obj data) = fst ` set obj \<union> fst ` set data"
  unfolding spread_def
  by (induction data arbitrary: obj) (auto simp: dom_update)

lemma distinct_spread: "distinct (map fst obj) \<Longrightarrow> distinct (map fst (spread obj data))"
  unfolding spread_def
  by (induction data arbitrary: obj) (simp_all add: distinct_update)

lemma map_of_rev_distinct: "distinct (map fst xs) \<Longrightarrow> map_of (rev xs) = map_of xs"
  by (rule ext) (metis (no_types) distinct_rev map_of_eq_Some_iff map_of_eq_None_iff rev_map set_rev not_Some_eq)

lemma map_of_spread_key:
  assumes "distinct (map fst data)" and "map_of data k = Some v"
  shows "map_of (spread obj data) k = Some v"
  using assms by (simp add: map_of_spread map_of_rev_distinct map_add_Some_iff)

lemma map_of_spread_nokey:
  assumes "map_of data k = None"
  shows "map_of (spread obj data) k = map_of obj k"
proof -
  have "k \<notin> fst ` set data" using assms by (simp add: map_of_eq_None_iff)
  then have "map_of (rev data) k = None" by (simp add: map_of_eq_None_iff)
  then show ?thesis by (simp add: map_of_spread map_add_def)
qed

subsection \<open>Conversions\<close>

lemma getExposedLoop_ids:
  "ae_experimentId ` set (getExposedLoop asg exps) = fst ` set exps \<inter> fst ` set asg"
proof (induction exps)
  case Nil
  then show ?case by simp
next
  case (Cons p exps)
  obtain k e where p: "p = (k, e)" by (cases p)
  show ?case
  proof (cases "map_of asg k")
    case None
    then have "k \<notin> fst ` set asg" by (simp add: map_of_eq_None_iff)
    with None Cons.IH show ?thesis by (auto simp: p)
  next
    case (Some a)
    then have "k \<in> fst ` set asg" by (metis map_of_eq_None_iff option.distinct(1))
    with Some Cons.IH show ?thesis by (auto simp: p)
  qed
qed

lemma getExposedExperiments_ids:
  "ae_experimentId ` set (getExposedExperiments t)
     = fst ` set (exposures t) \<inter> fst ` set (assignments t)"
  by (simp add: getExposedExperiments_def getExposedLoop_ids)

lemma image_filter_key: "f ` {x \<in> A. f x \<in> S} = f ` A \<inter> S"
  by auto

lemma attributedFor_ids:
  "ae_experimentId ` set (attributedFor goal t)
     = (fst ` set (exposures t) \<inter> fst ` set (assignments t))
         \<inter> (case experimentIds goal of
               None \<Rightarrow> UNIV
             | Some ids \<Rightarrow> if ids = [] then UNIV else set ids)"
  by (simp add: attributedFor_def image_filter_key getExposedExperiments_ids split: option.splits)

lemma tryRecordConversion_no_exposure:
  "exposures t = [] \<Longrightarrow> tryRecordConversion env goal cd t = t"
  by (simp add: tryRecordConversion_def hasAnyExposure_def)

lemma tryRecordConversion_tracked:
  "goalSessionKey goal t \<in> trackedGoals t \<Longrightarrow> tryRecordConversion env goal cd t = t"
  by (simp add: tryRecordConversion_def)

lemma tryRecordConversion_dropped:
  "restricted goal \<Longrightarrow> attributedFor goal t = [] \<Longrightarrow> tryRecordConversion env goal cd t = t"
  by (auto simp: tryRecordConversion_def restricted_def attributedFor_def Let_def
           split: option.splits)

lemma tryRecordConversion_disjoint:
  assumes "experimentIds goal = Some ids" and "ids \<noteq> []"
    and "set ids \<inter> fst ` set (exposures t) = {}"
  shows "tryRecordConversion env goal cd t = t"
proof -
  have "ae_experimentId ` set (attributedFor goal t) = {}"
    using assms by (auto simp: attributedFor_ids)
  then have "attributedFor goal t = []" by simp
  moreover have "restricted goal" using assms by (simp add: restricted_def)
  ultimately show ?thesis by (rule tryRecordConversion_dropped [rotated])
qed

lemma tryRecordConversion_records:
  assumes "goalSessionKey goal t \<notin> trackedGoals t" and "exposures t \<noteq> []"
    and "restricted goal \<longrightarrow> attributedFor goal t \<noteq> []"
  shows "tryRecordConversion env goal cd t = recordConversion env goal cd (attributedFor goal t) t"
  using assms
  by (auto simp: tryRecordConversion_def restricted_def attributedFor_def Let_def hasAnyExposure_def
           split: option.splits)

lemma envelope_trackedGoals:
  "envelope env (t\<lparr>trackedGoals := g\<rparr>) sid ty data = envelope env t sid ty data"
  by (simp add: envelope_def)

lemma enqueued_recordConversion:
  "enqueued (recordConversion env goal cd att t) =
     enqueued t @
       [envelope env t (JStr (sessionId t)) (lit ''GOAL_CONVERSION'') (conversionData goal cd att)]"
  by (simp add: recordConversion_def Let_def enqueued_pushDataLayer enqueued_enqueueEvent
        envelope_trackedGoals) (simp add: enqueued_def)

lemma conversion_fields:
  fixes env :: PageEnv and t :: Tracker and goal :: GoalConfig
    and att :: "AttributedExperiment list"
  assumes "plainData cd"
  defines "e \<equiv> envelope env t (JStr (sessionId t)) (lit ''GOAL_CONVERSION'')
                  (conversionData goal cd att)"
  shows "field e (lit ''eventType'') = JStr (lit ''GOAL_CONVERSION'')"
    and "field e (lit ''goalId'') = JStr (goal_id goal)"
    and "field e (lit ''sessionId'') = JStr (sessionId t)"
    and "field e (lit ''attributedExperiments'') = JArr (map attributedJson att)"
proof -
  let ?X = "conversionData goal cd att"
  have d: "distinct (map fst ?X)"
    unfolding conversionData_def by (rule distinct_spread) (simp add: lit_inj)
  have k: "map_of ?X (lit ''goalId'') = Some (JStr (goal_id goal))"
          "map_of ?X (lit ''attributedExperiments'') = Some (JArr (map attributedJson att))"
          "map_of ?X (lit ''eventType'') = None"
          "map_of ?X (lit ''sessionId'') = None"
    using assms(1) by (simp_all add: conversionData_def plainData_def map_of_spread_nokey lit_inj)
  show "field e (lit ''eventType'') = JStr (lit ''GOAL_CONVERSION'')"
    and "field e (lit ''goalId'') = JStr (goal_id goal)"
    and "field e (lit ''sessionId'') = JStr (sessionId t)"
    and "field e (lit ''attributedExperiments'') = JArr (map attributedJson att)"
    using k d
    by (simp_all add: e_def envelope_def field_def map_of_spread_nokey map_of_spread_key lit_inj)
qed

lemma recorded_envelope:
  fixes env :: PageEnv and cd :: jsobj
  assumes "goalSessionKey goal t \<notin> trackedGoals t" and "exposures t \<noteq> []"
    and "restricted goal \<longrightarrow> attributedFor goal t \<noteq> []"
  defines "e \<equiv> envelope env t (JStr (sessionId t)) (lit ''GOAL_CONVERSION'')
                  (conversionData goal cd (attributedFor goal t))"
  shows "enqueued (tryRecordConversion env goal cd t) = enqueued t @ [e]"
    and "plainData cd \<Longrightarrow> isGoalConversion (goal_id goal) (sessionId t) e"
    and "plainData cd \<Longrightarrow> field e (lit ''attributedExperiments'')
                 = JArr (map attributedJson (attributedFor goal t))"
proof -
  show "enqueued (tryRecordConversion env goal cd t) = enqueued t @ [e]"
    by (simp only: tryRecordConversion_records [OF assms(1-3)] enqueued_recordConversion e_def)
  show "isGoalConversion (goal_id goal) (sessionId t) e" if "plainData cd"
    unfolding isGoalConversion_def e_def by (intro conjI conversion_fields [OF that])
  show "field e (lit ''attributedExperiments'')
                 = JArr (map attributedJson (attributedFor goal t))" if "plainData cd"
    unfolding e_def by (rule conversion_fields(4) [OF that])
qed





subsection \<open>The attribution gate\<close>


text \<open>
  Claim C9. A conversion attempt rejected by the attribution gate (no exposure, or a
  restricting list disjoint from the exposure map) returns the state it was given: the
  dedup key is not added to \<open>trackedGoals\<close> and nothing is queued. A later attempt in a
  state of the same session with the same \<open>trackedGoals\<close>, once the attribution holds,
  queues the GOAL_CONVERSION envelope.
\<close>

theorem rejected_conversion_keeps_state:
  assumes "exposures t = []
           \<or> (experimentIds goal = Some ids \<and> ids \<noteq> [] \<and> set ids \<inter> fst ` set (exposures t) = {})"
  shows "tryRecordConversion env goal cd t = t
         \<and> (goalSessionKey goal t \<notin> trackedGoals t
              \<and> trackedGoals t' = trackedGoals (tryRecordConversion env goal cd t)
              \<and> sessionId t' = sessionId t
              \<and> exposures t' \<noteq> [] \<and> (restricted goal \<longrightarrow> attributedFor goal t' \<noteq> [])
            \<longrightarrow> (\<exists>e. enqueued (tryRecordConversion env' goal [] t') = enqueued t' @ [e]
                     \<and> isGoalConversion (goal_id goal) (sessionId t) e))"
proof (intro conjI impI)
  show same: "tryRecordConversion env goal cd t = t"
    using assms by (auto intro: tryRecordConversion_no_exposure tryRecordConversion_disjoint)
  assume a: "goalSessionKey goal t \<notin> trackedGoals t
              \<and> trackedGoals t' = trackedGoals (tryRecordConversion env goal cd t)
              \<and> sessionId t' = sessionId t
              \<and> exposures t' \<noteq> [] \<and> (restricted goal \<longrightarrow> attributedFor goal t' \<noteq> [])"
  then have k: "goalSessionKey goal t' \<notin> trackedGoals t'"
    by (simp add: same goalSessionKey_def)
  have p: "plainData []" by (simp add: plainData_def)
  let ?e = "envelope env' t' (JStr (sessionId t')) (lit ''GOAL_CONVERSION'')
              (conversionData goal [] (attributedFor goal t'))"
  have "enqueued (tryRecordConversion env' goal [] t') = enqueued t' @ [?e]"
    using a k by (intro recorded_envelope(1)) simp_all
  moreover have "isGoalConversion (goal_id goal) (sessionId t) ?e"
    using a k p recorded_envelope(2) [of goal t' "[]" env'] by simp
  ultimately show "\<exists>e. enqueued (tryRecordConversion env' goal [] t') = enqueued t' @ [e]
                     \<and> isGoalConversion (goal_id goal) (sessionId t) e"
    by blast
qed

subsection \<open>Exposure expiry\<close>


lemma cleanupLoop_map_of:
  "map_of (fst (cleanupLoop n w entries (exps, ch))) k =
     (if k \<in> expiredKeys n w entries then None else map_of exps k)"
proof (induction entries arbitrary: exps ch)
  case Nil
  then show ?case by (simp add: expiredKeys_def)
next
  case (Cons p entries)
  obtain x e where p: "p = (x, e)" by (cases p)
  show ?case
    by (simp add: p Cons.IH delete_conv') (auto simp: expiredKeys_def)
qed

lemma cleanupLoop_changed:
  "snd (cleanupLoop n w entries (exps, ch)) = (ch \<or> expiredKeys n w entries \<noteq> {})"
proof (induction entries arbitrary: exps ch)
  case Nil
  then show ?case by (simp add: expiredKeys_def)
next
  case (Cons p entries)
  obtain x e where p: "p = (x, e)" by (cases p)
  show ?case
    by (simp add: p Cons.IH) (auto simp: expiredKeys_def)
qed

lemma cleanupLoop_unchanged:
  "\<forall>p \<in> set entries. \<not> n - exposedAt (snd p) > w \<Longrightarrow> cleanupLoop n w entries acc = acc"
proof (induction entries arbitrary: acc)
  case Nil
  then show ?case by simp
next
  case (Cons p entries)
  obtain x e where p: "p = (x, e)" by (cases p)
  obtain exps ch where acc: "acc = (exps, ch)" by (cases acc)
  show ?case
    using Cons.prems Cons.IH [of acc] by (simp add: p acc)
qed

lemma expiredKeys_distinct:
  assumes "distinct (map fst entries)" and "map_of entries k = Some r"
  shows "k \<in> expiredKeys n w entries \<longleftrightarrow> n - exposedAt r > w"
proof
  assume "k \<in> expiredKeys n w entries"
  then obtain e where "(k, e) \<in> set entries" "n - exposedAt e > w"
    by (auto simp: expiredKeys_def)
  moreover have "(k, r) \<in> set entries" using assms(2) by (rule map_of_SomeD)
  ultimately show "n - exposedAt r > w"
    using assms(1) by (metis eq_key_imp_eq_value)
next
  assume "n - exposedAt r > w"
  moreover have "(k, r) \<in> set entries" using assms(2) by (rule map_of_SomeD)
  ultimately show "k \<in> expiredKeys n w entries"
    by (force simp: expiredKeys_def)
qed

lemma recordExposure_new:
  "map_of (exposures t) experimentId = None \<Longrightarrow>
     map_of (exposures (recordExposure env experimentId v t)) experimentId
       = Some \<lparr>exposure_variantId = v, exposedAt = now env, exposureCount = 1\<rparr>"
  by (simp add: recordExposure_def Let_def update_conv')

text \<open>
  Claim C7. An exposure record created at time \<open>T\<close> (by \<open>recordExposure\<close>, with count 1)
  is kept by \<open>cleanupExpiredExposures\<close> at every time strictly before \<open>T + W\<close> and is
  removed at every time strictly after \<open>T + W\<close>, where \<open>W\<close> is the attribution window in
  milliseconds. The exposure map is written to the store only when a record was
  removed: a changed stored map means some record is gone, and when no record is
  expired the whole state is unchanged.
\<close>

theorem exposure_expiry:
  assumes "distinct (map fst (exposures t))" and "map_of (exposures t) k = Some r"
  shows "(now env < exposedAt r + attributionWindowDays t * 24 * 60 * 60 * 1000 \<longrightarrow>
            map_of (exposures (cleanupExpiredExposures env t)) k = Some r)
         \<and> (now env > exposedAt r + attributionWindowDays t * 24 * 60 * 60 * 1000 \<longrightarrow>
            map_of (exposures (cleanupExpiredExposures env t)) k = None
            \<and> ls_exposures (storage (cleanupExpiredExposures env t))
                = Some (exposures (cleanupExpiredExposures env t)))
         \<and> (ls_exposures (storage (cleanupExpiredExposures env t)) \<noteq> ls_exposures (storage t) \<longrightarrow>
            (\<exists>x. map_of (exposures t) x \<noteq> None
                 \<and> map_of (exposures (cleanupExpiredExposures env t)) x = None))
         \<and> ((\<forall>x \<in> set (exposures t).
                 \<not> now env - exposedAt (snd x) > attributionWindowDays t * 24 * 60 * 60 * 1000) \<longrightarrow>
            cleanupExpiredExposures env t = t)
         \<and> (map_of (exposures t0) k = None \<longrightarrow>
            map_of (exposures (recordExposure env0 k v t0)) k
              = Some \<lparr>exposure_variantId = v, exposedAt = now env0, exposureCount = 1\<rparr>)"
proof -
  define w where "w = attributionWindowDays t * 24 * 60 * 60 * 1000"
  define K where "K = expiredKeys (now env) w (exposures t)"
  define res where "res = cleanupLoop (now env) w (exposures t) (exposures t, False)"
  have ex: "exposures (cleanupExpiredExposures env t) = fst res"
    by (simp add: cleanupExpiredExposures_def Let_def res_def w_def)
  have ls: "ls_exposures (storage (cleanupExpiredExposures env t))
              = (if K \<noteq> {} then Some (fst res) else ls_exposures (storage t))"
    unfolding cleanupExpiredExposures_def Let_def w_def [symmetric] res_def [symmetric]
    by (simp add: res_def cleanupLoop_changed K_def)
  have m: "\<And>x. map_of (fst res) x = (if x \<in> K then None else map_of (exposures t) x)"
    unfolding res_def K_def by (rule cleanupLoop_map_of)
  have kK: "k \<in> K \<longleftrightarrow> now env - exposedAt r > w"
    unfolding K_def by (rule expiredKeys_distinct [OF assms])
  have 1: "now env < exposedAt r + w \<longrightarrow>
            map_of (exposures (cleanupExpiredExposures env t)) k = Some r"
    using kK assms(2) by (simp add: ex m)
  have 2: "now env > exposedAt r + w \<longrightarrow>
            map_of (exposures (cleanupExpiredExposures env t)) k = None
            \<and> ls_exposures (storage (cleanupExpiredExposures env t))
                = Some (exposures (cleanupExpiredExposures env t))"
  proof
    assume "now env > exposedAt r + w"
    then have "k \<in> K" using kK by simp
    then show "map_of (exposures (cleanupExpiredExposures env t)) k = None
            \<and> ls_exposures (storage (cleanupExpiredExposures env t))
                = Some (exposures (cleanupExpiredExposures env t))"
      by (auto simp: ex m ls)
  qed
  have 3: "ls_exposures (storage (cleanupExpiredExposures env t)) \<noteq> ls_exposures (storage t) \<longrightarrow>
            (\<exists>x. map_of (exposures t) x \<noteq> None
                 \<and> map_of (exposures (cleanupExpiredExposures env t)) x = None)"
  proof
    assume "ls_exposures (storage (cleanupExpiredExposures env t)) \<noteq> ls_exposures (storage t)"
    then have "K \<noteq> {}" by (simp add: ls split: if_splits)
    then obtain x where x: "x \<in> K" by blast
    then have "x \<in> fst ` set (exposures t)" by (auto simp: K_def expiredKeys_def)
    then have "map_of (exposures t) x \<noteq> None" by (simp add: map_of_eq_None_iff)
    then show "\<exists>x. map_of (exposures t) x \<noteq> None
                 \<and> map_of (exposures (cleanupExpiredExposures env t)) x = None"
      using x by (auto simp: ex m)
  qed
  have 4: "(\<forall>x \<in> set (exposures t). \<not> now env - exposedAt (snd x) > w) \<longrightarrow>
            cleanupExpiredExposures env t = t"
  proof
    assume "\<forall>x \<in> set (exposures t). \<not> now env - exposedAt (snd x) > w"
    then have "res = (exposures t, False)"
      unfolding res_def by (rule cleanupLoop_unchanged)
    then show "cleanupExpiredExposures env t = t"
      unfolding cleanupExpiredExposures_def Let_def w_def [symmetric] res_def [symmetric]
      by simp
  qed
  have 5: "map_of (exposures t0) k = None \<longrightarrow>
            map_of (exposures (recordExposure env0 k v t0)) k
              = Some \<lparr>exposure_variantId = v, exposedAt = now env0, exposureCount = 1\<rparr>"
    by (simp add: recordExposure_new)
  show ?thesis using 1 2 3 4 5 unfolding w_def by blast
qed

subsection \<open>Audiences\<close>

lemma checkAudience_unknown_type:
  "\<not> knownType (aud_type aud) \<Longrightarrow> checkAudience env jar aud = Inr True"
  by (simp add: checkAudience_def userValueOf_def knownType_def)

lemma checkAudiences_unknown_types:
  "list_all (\<lambda>aud. \<not> knownType (aud_type aud)) auds \<Longrightarrow> checkAudiences env jar auds = Inr True"
  by (induction auds) (simp_all add: checkAudience_unknown_type)

lemma checkAudience_unknown_operator:
  assumes "\<not> knownOperator (aud_operator aud)" and "userValueOf env jar aud = Some u"
  shows "checkAudience env jar aud = Inr (u \<noteq> JNull \<and> u \<noteq> JUndefined)"
  using assms by (simp add: checkAudience_def knownOperator_def Let_def)

lemma userValueOf_known:
  "knownType (aud_type aud) \<Longrightarrow> \<exists>u. userValueOf env jar aud = Some u"
  by (auto simp: userValueOf_def knownType_def)

lemma userValueOf_device:
  "aud_type aud = lit ''DEVICE'' \<or> aud_type aud = lit ''BROWSER'' \<Longrightarrow>
     \<exists>s. userValueOf env jar aud = Some (JStr s)"
  by (auto simp: userValueOf_def lit_inj)


text \<open>
  Claim C10, as the code has it. A predicate whose type is not one of the five known
  types is matched. A predicate whose operator is not one of the seven known operators
  is matched when a value was observed for it, and fails when the observed value is
  \<open>null\<close> or \<open>undefined\<close>; for the types DEVICE and BROWSER a value is always observed.
  Audiences that hold only predicates of unknown type match every visitor.
\<close>

theorem unrecognized_audience:
  "(\<not> knownType (aud_type aud) \<longrightarrow> checkAudience env jar aud = Inr True)
   \<and> (\<not> knownOperator (aud_operator aud) \<and> userValueOf env jar aud = Some u \<longrightarrow>
        checkAudience env jar aud = Inr (u \<noteq> JNull \<and> u \<noteq> JUndefined))
   \<and> (\<not> knownOperator (aud_operator aud)
        \<and> (aud_type aud = lit ''DEVICE'' \<or> aud_type aud = lit ''BROWSER'') \<longrightarrow>
        checkAudience env jar aud = Inr True)
   \<and> (list_all (\<lambda>a. \<not> knownType (aud_type a)) auds \<longrightarrow> checkAudiences env jar auds = Inr True)"
proof (intro conjI impI)
  assume "\<not> knownType (aud_type aud)"
  then show "checkAudience env jar aud = Inr True" by (rule checkAudience_unknown_type)
next
  assume "\<not> knownOperator (aud_operator aud) \<and> userValueOf env jar aud = Some u"
  then show "checkAudience env jar aud = Inr (u \<noteq> JNull \<and> u \<noteq> JUndefined)"
    by (simp add: checkAudience_unknown_operator)
next
  assume a: "\<not> knownOperator (aud_operator aud)
        \<and> (aud_type aud = lit ''DEVICE'' \<or> aud_type aud = lit ''BROWSER'')"
  then obtain s where "userValueOf env jar aud = Some (JStr s)"
    using userValueOf_device [of aud env jar] by blast
  then show "checkAudience env jar aud = Inr True"
    using a by (simp add: checkAudience_unknown_operator)
next
  assume "list_all (\<lambda>a. \<not> knownType (aud_type a)) auds"
  then show "checkAudiences env jar auds = Inr True" by (rule checkAudiences_unknown_types)
qed

theorem unrecognized_audience_witness:
  "\<not> knownType (lit ''GEO'')
   \<and> checkAudience (exEnv 1000) [] (exAudience\<lparr>aud_type := lit ''GEO'', aud_operator := lit ''IS''\<rparr>)
       = Inr True
   \<and> \<not> knownOperator (lit ''STARTS_WITH'')
   \<and> userValueOf (exEnv 1000) [(lit ''plan'', lit ''free'')] exAudience = Some (JStr (lit ''free''))
   \<and> checkAudience (exEnv 1000) [(lit ''plan'', lit ''free'')] exAudience = Inr True
   \<and> checkAudience (exEnv 1000) [] (exAudience\<lparr>aud_type := lit ''BROWSER''\<rparr>) = Inr True
   \<and> checkAudiences (exEnv 1000) []
        [exAudience\<lparr>aud_type := lit ''GEO''\<rparr>, exAudience\<lparr>aud_type := lit ''SEGMENT''\<rparr>]
       = Inr True"
proof -
  have t: "\<not> knownType (lit ''GEO'')" "\<not> knownType (lit ''SEGMENT'')"
    by (simp_all add: knownType_def lit_inj)
  have o: "\<not> knownOperator (lit ''STARTS_WITH'')"
    by (simp add: knownOperator_def lit_inj)
  have u: "userValueOf (exEnv 1000) [(lit ''plan'', lit ''free'')] exAudience
             = Some (JStr (lit ''free''))"
    by (simp add: userValueOf_def exAudience_def lit_inj orEmpty_def)
  show ?thesis
    using unrecognized_audience
            [of "exAudience\<lparr>aud_type := lit ''GEO'', aud_operator := lit ''IS''\<rparr>" "exEnv 1000" "[]"
                JNull "[]"]
      unrecognized_audience
            [of exAudience "exEnv 1000" "[(lit ''plan'', lit ''free'')]" "JStr (lit ''free'')" "[]"]
      unrecognized_audience
            [of "exAudience\<lparr>aud_type := lit ''BROWSER''\<rparr>" "exEnv 1000" "[]" JNull
                "[exAudience\<lparr>aud_type := lit ''GEO''\<rparr>, exAudience\<lparr>aud_type := lit ''SEGMENT''\<rparr>]"]
      t o u
    by (simp add: exAudience_def)
qed

subsection \<open>Initialization without a configuration\<close>

lemma init_no_config:
  assumes "ls_configCache (storage t) = None" and "config t = None"
  shows "init env FetchFailed t = (None, revealPage t)"
proof -
  have "loadConfig env FetchFailed t = t"
    using assms(1) by (simp add: loadConfig_def)
  then have "initBody env FetchFailed t = (None, revealPage t)"
    using assms(2) by (simp add: initBody_def)
  moreover have "revealPage (revealPage t) = revealPage t"
    by (simp add: revealPage_def)
  ultimately show ?thesis by (simp add: init_def)
qed

lemma frame_cleanup:
  "config (cleanupExpiredExposures env t) = config t"
  "isRevealed (cleanupExpiredExposures env t) = isRevealed t"
  "pageHidden (cleanupExpiredExposures env t) = pageHidden t"
  "appliedChanges (cleanupExpiredExposures env t) = appliedChanges t"
  "activeExperiments (cleanupExpiredExposures env t) = activeExperiments t"
  "trackedGoals (cleanupExpiredExposures env t) = trackedGoals t"
  "sessionId (cleanupExpiredExposures env t) = sessionId t"
  "assignments (cleanupExpiredExposures env t) = assignments t"
  "eventQueue (cleanupExpiredExposures env t) = eventQueue t"
  "posted (storage (cleanupExpiredExposures env t)) = posted (storage t)"
  "ls_configCache (storage (cleanupExpiredExposures env t)) = ls_configCache (storage t)"
  by (simp_all add: cleanupExpiredExposures_def Let_def)

lemma frame_enqueueWith:
  "config (enqueueWith env sid ty d t) = config t"
  "isRevealed (enqueueWith env sid ty d t) = isRevealed t"
  "pageHidden (enqueueWith env sid ty d t) = pageHidden t"
  "appliedChanges (enqueueWith env sid ty d t) = appliedChanges t"
  "activeExperiments (enqueueWith env sid ty d t) = activeExperiments t"
  "trackedGoals (enqueueWith env sid ty d t) = trackedGoals t"
  "sessionId (enqueueWith env sid ty d t) = sessionId t"
  "assignments (enqueueWith env sid ty d t) = assignments t"
  "exposures (enqueueWith env sid ty d t) = exposures t"
  "ls_configCache (storage (enqueueWith env sid ty d t)) = ls_configCache (storage t)"
  by (simp_all add: enqueueWith_def flushEvents_def Let_def)

lemma frame_resolveSessionId:
  "config (snd (resolveSessionId env t)) = config t"
  "isRevealed (snd (resolveSessionId env t)) = isRevealed t"
  "pageHidden (snd (resolveSessionId env t)) = pageHidden t"
  "appliedChanges (snd (resolveSessionId env t)) = appliedChanges t"
  "activeExperiments (snd (resolveSessionId env t)) = activeExperiments t"
  "trackedGoals (snd (resolveSessionId env t)) = trackedGoals t"
  "ls_configCache (storage (snd (resolveSessionId env t))) = ls_configCache (storage t)"
  by (simp_all add: resolveSessionId_def updateActivity_def frame_enqueueWith Let_def)

lemma frame_resolveVisitorId:
  "ls_configCache (snd (resolveVisitorId env st)) = ls_configCache st"
  "posted (snd (resolveVisitorId env st)) = posted st"
  by (simp_all add: resolveVisitorId_def Let_def)

lemma newTracker_fields:
  "config (newTracker env opts st) = None"
  "isRevealed (newTracker env opts st) = False"
  "pageHidden (newTracker env opts st) = True"
  "appliedChanges (newTracker env opts st) = []"
  "activeExperiments (newTracker env opts st) = {}"
  "trackedGoals (newTracker env opts st) = {}"
  "ls_configCache (storage (newTracker env opts st)) = ls_configCache st"
  by (simp_all add: newTracker_def Let_def frame_cleanup frame_resolveSessionId
        frame_resolveVisitorId)


lemma frame_revealPage:
  "config (revealPage t) = config t"
  "appliedChanges (revealPage t) = appliedChanges t"
  "assignments (revealPage t) = assignments t"
  "exposures (revealPage t) = exposures t"
  "eventQueue (revealPage t) = eventQueue t"
  "storage (revealPage t) = storage t"
  by (simp_all add: revealPage_def)

lemma session_start_field:
  "field (envelope env t sid (lit ''SESSION_START'') [(lit ''referrer'', r)]) (lit ''eventType'')
     = JStr (lit ''SESSION_START'')"
  by (simp add: envelope_def field_def map_of_spread_nokey lit_inj)

lemma newTracker_queue:
  "list_all (\<lambda>e. field e (lit ''eventType'') = JStr (lit ''SESSION_START''))
     (eventQueue (newTracker env opts st))"
  "posted (storage (newTracker env opts st)) = posted st"
  by (simp_all add: newTracker_def Let_def frame_cleanup resolveSessionId_def updateActivity_def
        enqueueWith_def flushEvents_def session_start_field frame_resolveVisitorId)

text \<open>
  Claim C8. When no configuration is cached and the fetch fails, \<open>init\<close> on a new
  instance throws nothing and only reveals the page: the configuration stays absent, no
  experiment is processed (assignments and exposures are as loaded, no change is
  applied), nothing is posted, and the queue holds at most the SESSION_START envelope
  of the constructor.
\<close>

theorem init_config_unavailable:
  assumes "ls_configCache st = None"
  shows "init env' FetchFailed (newTracker env opts st)
           = (None, (newTracker env opts st)\<lparr>isRevealed := True, pageHidden := False\<rparr>)
         \<and> config (snd (init env' FetchFailed (newTracker env opts st))) = None
         \<and> appliedChanges (snd (init env' FetchFailed (newTracker env opts st))) = []
         \<and> isRevealed (snd (init env' FetchFailed (newTracker env opts st)))
         \<and> \<not> pageHidden (snd (init env' FetchFailed (newTracker env opts st)))
         \<and> assignments (snd (init env' FetchFailed (newTracker env opts st)))
             = assignments (newTracker env opts st)
         \<and> exposures (snd (init env' FetchFailed (newTracker env opts st)))
             = exposures (newTracker env opts st)
         \<and> posted (storage (snd (init env' FetchFailed (newTracker env opts st)))) = posted st
         \<and> list_all (\<lambda>e. field e (lit ''eventType'') = JStr (lit ''SESSION_START''))
              (eventQueue (snd (init env' FetchFailed (newTracker env opts st))))"
proof -
  let ?n = "newTracker env opts st"
  have i: "init env' FetchFailed ?n = (None, revealPage ?n)"
    by (rule init_no_config) (simp_all add: newTracker_fields assms)
  have r: "revealPage ?n = ?n\<lparr>isRevealed := True, pageHidden := False\<rparr>"
    by (simp add: revealPage_def newTracker_fields)
  show ?thesis
    unfolding i snd_conv
    by (simp add: frame_revealPage newTracker_fields newTracker_queue) (simp add: r)
qed

theorem init_config_unavailable_witness:
  "ls_configCache exStorage = None
   \<and> init (exEnv 1000) FetchFailed (newTracker (exEnv 1000) exOpts exStorage)
       = (None, (newTracker (exEnv 1000) exOpts exStorage)\<lparr>isRevealed := True, pageHidden := False\<rparr>)
   \<and> config (snd (init (exEnv 1000) FetchFailed (newTracker (exEnv 1000) exOpts exStorage))) = None
   \<and> map (\<lambda>e. field e (lit ''eventType''))
        (enqueued (snd (init (exEnv 1000) FetchFailed (newTracker (exEnv 1000) exOpts exStorage))))
       = [JStr (lit ''SESSION_START'')]"
proof -
  have c: "ls_configCache exStorage = None" by (simp add: exStorage_def)
  have q: "map (\<lambda>e. field e (lit ''eventType''))
        (enqueued (snd (init (exEnv 1000) FetchFailed (newTracker (exEnv 1000) exOpts exStorage))))
       = [JStr (lit ''SESSION_START'')]"
    by code_simp
  note th = init_config_unavailable [OF c, of "exEnv 1000" "exEnv 1000" exOpts]
  have a: "init (exEnv 1000) FetchFailed (newTracker (exEnv 1000) exOpts exStorage)
       = (None, (newTracker (exEnv 1000) exOpts exStorage)\<lparr>isRevealed := True, pageHidden := False\<rparr>)"
    by (rule conjunct1 [OF th])
  have b: "config (snd (init (exEnv 1000) FetchFailed (newTracker (exEnv 1000) exOpts exStorage))) = None"
    by (rule conjunct1 [OF conjunct2 [OF th]])
  show ?thesis
    by (intro conjI c a b q)
qed

subsection \<open>Processing the experiments\<close>

lemma frame_flushEvents:
  "assignments (flushEvents t) = assignments t"
  "exposures (flushEvents t) = exposures t"
  "activeExperiments (flushEvents t) = activeExperiments t"
  "trackedGoals (flushEvents t) = trackedGoals t"
  "sessionId (flushEvents t) = sessionId t"
  "visitorId (flushEvents t) = visitorId t"
  "config (flushEvents t) = config t"
  "cookies (storage (flushEvents t)) = cookies (storage t)"
  "ls_assignments (storage (flushEvents t)) = ls_assignments (storage t)"
  "ls_exposures (storage (flushEvents t)) = ls_exposures (storage t)"
  by (simp_all add: flushEvents_def)

lemma frame_enqueueEvent:
  "assignments (enqueueEvent env ty d t) = assignments t"
  "exposures (enqueueEvent env ty d t) = exposures t"
  "activeExperiments (enqueueEvent env ty d t) = activeExperiments t"
  "trackedGoals (enqueueEvent env ty d t) = trackedGoals t"
  "sessionId (enqueueEvent env ty d t) = sessionId t"
  "visitorId (enqueueEvent env ty d t) = visitorId t"
  "config (enqueueEvent env ty d t) = config t"
  "cookies (storage (enqueueEvent env ty d t)) = cookies (storage t)"
  "ls_assignments (storage (enqueueEvent env ty d t)) = ls_assignments (storage t)"
  "ls_exposures (storage (enqueueEvent env ty d t)) = ls_exposures (storage t)"
  by (simp_all add: enqueueEvent_def enqueueWith_def Let_def frame_flushEvents)

lemma frame_pushDataLayer:
  "assignments (pushDataLayer d t) = assignments t"
  "exposures (pushDataLayer d t) = exposures t"
  "activeExperiments (pushDataLayer d t) = activeExperiments t"
  "trackedGoals (pushDataLayer d t) = trackedGoals t"
  "sessionId (pushDataLayer d t) = sessionId t"
  "visitorId (pushDataLayer d t) = visitorId t"
  "config (pushDataLayer d t) = config t"
  "cookies (storage (pushDataLayer d t)) = cookies (storage t)"
  "ls_assignments (storage (pushDataLayer d t)) = ls_assignments (storage t)"
  "ls_exposures (storage (pushDataLayer d t)) = ls_exposures (storage t)"
  by (simp_all add: pushDataLayer_def)

lemma frame_recordExposure:
  "assignments (recordExposure env k v t) = assignments t"
  "activeExperiments (recordExposure env k v t) = activeExperiments t"
  "trackedGoals (recordExposure env k v t) = trackedGoals t"
  "sessionId (recordExposure env k v t) = sessionId t"
  "visitorId (recordExposure env k v t) = visitorId t"
  "config (recordExposure env k v t) = config t"
  "cookies (storage (recordExposure env k v t)) = cookies (storage t)"
  "ls_assignments (storage (recordExposure env k v t)) = ls_assignments (storage t)"
  "enqueued (recordExposure env k v t) = enqueued t"
  by (simp_all add: recordExposure_def Let_def enqueued_def)




lemma viewExperiment_frame:
  "assignments (viewExperiment env exp vId variant t) = assignments t"
  "visitorId (viewExperiment env exp vId variant t) = visitorId t"
  "sessionId (viewExperiment env exp vId variant t) = sessionId t"
  "config (viewExperiment env exp vId variant t) = config t"
  "trackedGoals (viewExperiment env exp vId variant t) = trackedGoals t"
  "cookies (storage (viewExperiment env exp vId variant t)) = cookies (storage t)"
  "ls_assignments (storage (viewExperiment env exp vId variant t)) = ls_assignments (storage t)"
  "activeExperiments (viewExperiment env exp vId variant t)
     = insert (exp_id exp) (activeExperiments t)"
  by (auto simp: viewExperiment_def Let_def frame_pushDataLayer frame_enqueueEvent
        frame_recordExposure split: option.splits)





lemma falsyStr_Some: "falsyStr (Some x) \<longleftrightarrow> x = []"
  by (simp add: falsyStr_def)

lemma processExperiment_shape:
  assumes "processExperiment env exp t = Inr t'"
  shows "t' = t
         \<or> (\<exists>a. map_of (assignments t) (exp_id exp) = Some a \<and> variantId a \<noteq> []
                \<and> t' = viewExperiment env exp (variantId a)
                          (find (\<lambda>v. v_id v = variantId a) (variants exp)) t)
         \<or> (\<exists>vId.
                falsyStr (map_option variantId (map_of (assignments t) (exp_id exp)))
                \<and> bucket (visitorId t) (exp_id exp) (variants exp) = Inr vId
                \<and> t' = viewExperiment env exp vId (find (\<lambda>v. v_id v = vId) (variants exp))
                          (t\<lparr>assignments :=
                               AList.update (exp_id exp)
                                 \<lparr>variantId = vId,
                                  variantName =
                                    Option.bind (find (\<lambda>v. v_id v = vId) (variants exp)) v_name,
                                  experimentName = exp_name exp, assignedAt = now env\<rparr>
                                 (assignments t),
                             storage := (storage t)\<lparr>ls_assignments :=
                               Some (AList.update (exp_id exp)
                                 \<lparr>variantId = vId,
                                  variantName =
                                    Option.bind (find (\<lambda>v. v_id v = vId) (variants exp)) v_name,
                                  experimentName = exp_name exp, assignedAt = now env\<rparr>
                                 (assignments t))\<rparr>\<rparr>))"
proof (cases "map_of (assignments t) (exp_id exp)")
  case None
  then show ?thesis
    using assms
    by (auto simp: processExperiment_def Let_def falsyStr_def
             split: if_splits option.splits sum.splits)
next
  case (Some a)
  show ?thesis
  proof (cases "variantId a = []")
    case True
    then show ?thesis
      using assms Some
      by (auto simp: processExperiment_def Let_def falsyStr_def
               split: if_splits option.splits sum.splits)
  next
    case False
    then show ?thesis
      using assms Some
      by (auto simp: processExperiment_def Let_def falsyStr_def orEmpty_def
               split: if_splits option.splits sum.splits)
  qed
qed




lemma processExperiment_keeps_assignment:
  assumes "processExperiment env x t = Inr t'"
    and "map_of (assignments t) e = Some a" and "variantId a \<noteq> []"
  shows "map_of (assignments t') e = Some a"
  using processExperiment_shape [OF assms(1)] assms(2,3)
  by (auto simp: viewExperiment_frame update_conv' falsyStr_def)

lemma processExperiment_keeps_sync:
  assumes "processExperiment env x t = Inr t'"
    and "ls_assignments (storage t) = Some (assignments t)"
  shows "ls_assignments (storage t') = Some (assignments t')"
  using processExperiment_shape [OF assms(1)] assms(2)
  by (auto simp: viewExperiment_frame)

lemma loop_keeps_assignment:
  assumes "map_of (assignments t) e = Some a" and "variantId a \<noteq> []"
  shows "map_of (assignments (snd (processExperimentsLoop env exps t))) e = Some a"
  using assms(1)
proof (induction exps arbitrary: t)
  case Nil
  then show ?case by simp
next
  case (Cons x exps)
  show ?case
  proof (cases "processExperiment env x t")
    case (Inl err)
    then show ?thesis using Cons.prems by simp
  next
    case (Inr t1)
    have "map_of (assignments t1) e = Some a"
      by (rule processExperiment_keeps_assignment [OF Inr Cons.prems assms(2)])
    then show ?thesis using Cons.IH [of t1] Inr by simp
  qed
qed

lemma loop_keeps_sync:
  assumes "ls_assignments (storage t) = Some (assignments t)"
  shows "ls_assignments (storage (snd (processExperimentsLoop env exps t)))
           = Some (assignments (snd (processExperimentsLoop env exps t)))"
  using assms
proof (induction exps arbitrary: t)
  case Nil
  then show ?case by simp
next
  case (Cons x exps)
  show ?case
  proof (cases "processExperiment env x t")
    case (Inl err)
    then show ?thesis using Cons.prems by simp
  next
    case (Inr t1)
    have "ls_assignments (storage t1) = Some (assignments t1)"
      by (rule processExperiment_keeps_sync [OF Inr Cons.prems])
    then show ?thesis using Cons.IH [of t1] Inr by simp
  qed
qed


lemma viewExperiment_weights:
  assumes "exp_id exp' = exp_id exp" and "exp_name exp' = exp_name exp"
  shows "viewExperiment env exp' vId (map_option (\<lambda>v. v\<lparr>trafficWeight := w v\<rparr>) variant) t
           = viewExperiment env exp vId variant t"
  using assms
  by (cases variant) (simp_all add: viewExperiment_def isControlOf_def Let_def)

lemma processExperiment_weights:
  assumes "map_of (assignments t) (exp_id exp) = Some a" and "variantId a \<noteq> []"
  shows "processExperiment env
           (exp\<lparr>trafficAllocation := al,
                variants := map (\<lambda>v. v\<lparr>trafficWeight := w v\<rparr>) (variants exp)\<rparr>) t
         = processExperiment env exp t"
proof -
  let ?exp' = "exp\<lparr>trafficAllocation := al,
                variants := map (\<lambda>v. v\<lparr>trafficWeight := w v\<rparr>) (variants exp)\<rparr>"
  have f: "find (\<lambda>v. v_id v = variantId a) (variants ?exp')
             = map_option (\<lambda>v. v\<lparr>trafficWeight := w v\<rparr>)
                 (find (\<lambda>v. v_id v = variantId a) (variants exp))"
    by (simp add: find_map_list comp_def)
  have v: "viewExperiment env ?exp' (variantId a)
             (find (\<lambda>v. v_id v = variantId a) (variants ?exp')) t
           = viewExperiment env exp (variantId a)
               (find (\<lambda>v. v_id v = variantId a) (variants exp)) t"
    unfolding f by (rule viewExperiment_weights) simp_all
  show ?thesis
    using assms v
    by (simp add: processExperiment_def Let_def falsyStr_def orEmpty_def
          split: option.splits sum.splits)
qed

subsection \<open>Reloads\<close>




text \<open>
  Claim C5, as the code has it. Once an assignment with a non-empty \<open>variantId\<close> is
  stored for an experiment, processing the experiments under any configuration leaves
  that assignment as it is, in memory and in the store: the stored variant is read and
  reused, and the result of processing the experiment does not depend on the traffic
  weights or the traffic allocation at all.
\<close>

theorem assignment_stability:
  assumes "map_of (assignments t) e = Some a" and "variantId a \<noteq> []"
  shows "map_of (assignments (snd (processExperiments env (t\<lparr>config := Some cfg\<rparr>)))) e = Some a
         \<and> (ls_assignments (storage t) = Some (assignments t) \<longrightarrow>
              ls_assignments (storage (snd (processExperiments env (t\<lparr>config := Some cfg\<rparr>))))
                = Some (assignments (snd (processExperiments env (t\<lparr>config := Some cfg\<rparr>)))))
         \<and> (exp_id exp = e \<longrightarrow>
              processExperiment env
                (exp\<lparr>trafficAllocation := al,
                     variants := map (\<lambda>v. v\<lparr>trafficWeight := w v\<rparr>) (variants exp)\<rparr>) t
              = processExperiment env exp t)"
proof (intro conjI impI)
  let ?t = "t\<lparr>config := Some cfg\<rparr>"
  have p: "processExperiments env ?t = processExperimentsLoop env (experiments cfg) ?t"
    by (simp add: processExperiments_def)
  show "map_of (assignments (snd (processExperiments env ?t))) e = Some a"
    unfolding p using assms by (intro loop_keeps_assignment) simp_all
  show "ls_assignments (storage (snd (processExperiments env ?t)))
          = Some (assignments (snd (processExperiments env ?t)))"
    if "ls_assignments (storage t) = Some (assignments t)"
    unfolding p using that by (intro loop_keeps_sync) simp
  show "processExperiment env
                (exp\<lparr>trafficAllocation := al,
                     variants := map (\<lambda>v. v\<lparr>trafficWeight := w v\<rparr>) (variants exp)\<rparr>) t
              = processExperiment env exp t"
    if "exp_id exp = e"
    using assms that by (intro processExperiment_weights) simp_all
qed














lemma frame_recordConversion:
  "sessionId (recordConversion env goal cd att t) = sessionId t"
  "trackedGoals (recordConversion env goal cd att t)
     = insert (goalSessionKey goal t) (trackedGoals t)"
  by (simp_all add: recordConversion_def Let_def frame_pushDataLayer frame_enqueueEvent)

lemma second_attempt_ignored:
  assumes "goalSessionKey goal t \<notin> trackedGoals t" and "exposures t \<noteq> []"
    and "restricted goal \<longrightarrow> attributedFor goal t \<noteq> []"
  shows "tryRecordConversion env' goal cd' (tryRecordConversion env goal cd t)
           = tryRecordConversion env goal cd t"
proof -
  let ?t' = "recordConversion env goal cd (attributedFor goal t) t"
  have "goalSessionKey goal ?t' \<in> trackedGoals ?t'"
    by (simp add: frame_recordConversion goalSessionKey_def)
  then show ?thesis
    unfolding tryRecordConversion_records [OF assms]
    by (rule tryRecordConversion_tracked)
qed

section \<open>The examples, evaluated\<close>

text \<open>
  Each example state is evaluated once, into its digest; everything said about the
  examples below follows from these equations.
\<close>

subsection \<open>The concrete states\<close>

lemma digest_exViewed:
  "digest exViewed =
     \<lparr>d_visitorId = lit ''uuid-0'', d_sessionId = lit ''uuid-1'', d_config = Some exConfig,
      d_assignments = [(lit ''e1'', exAssignment 1000)],
      d_exposures = [(lit ''e1'', exExposure 1000 1)],
      d_activeExperiments = {lit ''e1''}, d_trackedGoals = {},
      d_attributionWindowDays = 30,
      d_cookies = [(lit ''ab_ent_vid'', lit ''uuid-0'')],
      d_ls_assignments = Some [(lit ''e1'', exAssignment 1000)],
      d_events = [evSessionStart, evView]\<rparr>"
  by code_simp

lemma digest_exReloaded:
  "digest exReloaded =
     \<lparr>d_visitorId = lit ''uuid-0'', d_sessionId = lit ''uuid-1'', d_config = Some exConfig,
      d_assignments = [(lit ''e1'', exAssignment 1000)],
      d_exposures = [(lit ''e1'', exExposure 1000 2)],
      d_activeExperiments = {lit ''e1''}, d_trackedGoals = {},
      d_attributionWindowDays = 30,
      d_cookies = [(lit ''ab_ent_vid'', lit ''uuid-0'')],
      d_ls_assignments = Some [(lit ''e1'', exAssignment 1000)],
      d_events = [evSessionStart, evView, evConversion, evView]\<rparr>"
  by code_simp

lemma digest_secondLoad:
  "digest secondLoad =
     \<lparr>d_visitorId = lit ''uuid-0'', d_sessionId = lit ''uuid-1'', d_config = Some exConfig,
      d_assignments = [(lit ''e1'', exAssignment 1000)],
      d_exposures = [(lit ''e1'', exExposure 1000 2)],
      d_activeExperiments = {lit ''e1''}, d_trackedGoals = {lit ''g1_uuid-1''},
      d_attributionWindowDays = 30,
      d_cookies = [(lit ''ab_ent_vid'', lit ''uuid-0'')],
      d_ls_assignments = Some [(lit ''e1'', exAssignment 1000)],
      d_events = [evSessionStart, evView, evConversion, evView, evConversion]\<rparr>"
  by code_simp

lemma digest_exUnexposed:
  "digest exUnexposed =
     \<lparr>d_visitorId = lit ''uuid-0'', d_sessionId = lit ''uuid-1'', d_config = Some exConfig,
      d_assignments = [], d_exposures = [],
      d_activeExperiments = {}, d_trackedGoals = {},
      d_attributionWindowDays = 30,
      d_cookies = [(lit ''ab_ent_vid'', lit ''uuid-0'')],
      d_ls_assignments = None,
      d_events = [evSessionStart]\<rparr>"
  by code_simp

lemma digest_exNavigated:
  "digest exNavigated =
     \<lparr>d_visitorId = lit ''uuid-0'', d_sessionId = lit ''uuid-1'', d_config = Some exConfig,
      d_assignments = [(lit ''e1'', exAssignment 1800)],
      d_exposures = [(lit ''e1'', exExposure 1800 1)],
      d_activeExperiments = {lit ''e1''}, d_trackedGoals = {},
      d_attributionWindowDays = 30,
      d_cookies = [(lit ''ab_ent_vid'', lit ''uuid-0'')],
      d_ls_assignments = Some [(lit ''e1'', exAssignment 1800)],
      d_events = [evSessionStart, evView]\<rparr>"
  by code_simp


lemma digest_exBlankViewed:
  "digest exBlankViewed =
     \<lparr>d_visitorId = lit ''uuid-0'', d_sessionId = lit ''uuid-1'',
      d_config = Some exConfigBlank,
      d_assignments = [(lit ''e1'', exBlankAssignment)],
      d_exposures = [(lit ''e1'', (exExposure 1000 1)\<lparr>exposure_variantId := []\<rparr>)],
      d_activeExperiments = {lit ''e1''}, d_trackedGoals = {},
      d_attributionWindowDays = 30,
      d_cookies = [(lit ''ab_ent_vid'', lit ''uuid-0'')],
      d_ls_assignments = Some [(lit ''e1'', exBlankAssignment)],
      d_events = [evSessionStart, evView]\<rparr>"
  by code_simp

lemma digest_exBlankReloaded:
  "digest exBlankReloaded =
     \<lparr>d_visitorId = lit ''uuid-0'', d_sessionId = lit ''uuid-1'', d_config = Some exConfig,
      d_assignments = [(lit ''e1'', exAssignment 100000)],
      d_exposures = [(lit ''e1'', (exExposure 1000 2)\<lparr>exposure_variantId := []\<rparr>)],
      d_activeExperiments = {lit ''e1''}, d_trackedGoals = {},
      d_attributionWindowDays = 30,
      d_cookies = [(lit ''ab_ent_vid'', lit ''uuid-0'')],
      d_ls_assignments = Some [(lit ''e1'', exAssignment 100000)],
      d_events = [evSessionStart, evView, evView]\<rparr>"
  by code_simp

lemma digestD:
  "digest t = d \<Longrightarrow>
     visitorId t = d_visitorId d \<and> sessionId t = d_sessionId d \<and> config t = d_config d
     \<and> assignments t = d_assignments d \<and> exposures t = d_exposures d
     \<and> activeExperiments t = d_activeExperiments d \<and> trackedGoals t = d_trackedGoals d
     \<and> attributionWindowDays t = d_attributionWindowDays d
     \<and> cookies (storage t) = d_cookies d \<and> ls_assignments (storage t) = d_ls_assignments d
     \<and> eventLog t = d_events d"
  by (auto simp: digest_def)

lemmas exViewed_state = digestD [OF digest_exViewed, simplified]
lemmas exReloaded_state = digestD [OF digest_exReloaded, simplified]
lemmas secondLoad_state = digestD [OF digest_secondLoad, simplified]
lemmas exUnexposed_state = digestD [OF digest_exUnexposed, simplified]
lemmas exNavigated_state = digestD [OF digest_exNavigated, simplified]
lemmas exBlankViewed_state = digestD [OF digest_exBlankViewed, simplified]
lemmas exBlankReloaded_state = digestD [OF digest_exBlankReloaded, simplified]



lemma conversions_of_log:
  "length (filter (isGoalConversion g sid) q)
     = length (filter (\<lambda>v. fst v = JStr (lit ''GOAL_CONVERSION'') \<and> fst (snd (snd v)) = JStr g
                          \<and> fst (snd v) = JStr sid)
                 (map (\<lambda>e. (field e (lit ''eventType''), field e (lit ''sessionId''),
                            field e (lit ''goalId''), field e (lit ''experimentId''))) q))"
  by (induction q) (simp_all add: isGoalConversion_def)

lemma conversions_eventLog:
  "length (filter (isGoalConversion g sid) (enqueued t))
     = length (filter (\<lambda>v. fst v = JStr (lit ''GOAL_CONVERSION'') \<and> fst (snd (snd v)) = JStr g
                          \<and> fst (snd v) = JStr sid)
                 (eventLog t))"
  unfolding eventLog_def by (rule conversions_of_log)


text \<open>
  Claim C2. Inside one instance a goal that has been recorded is ignored from then on
  (\<open>second_attempt_ignored\<close>). The set \<open>trackedGoals\<close> is not stored, however: after a
  reload inside the session it is empty again, and the same click queues a second
  GOAL_CONVERSION envelope with the same goal id and session id. The log of the second
  page load holds the conversion of the first load and the one of the second.
\<close>

theorem conversion_repeated_after_reload:
  "sessionId exReloaded = lit ''uuid-1'' \<and> trackedGoals exReloaded = {}
   \<and> sessionId secondLoad = lit ''uuid-1''
   \<and> eventLog secondLoad = [evSessionStart, evView, evConversion, evView, evConversion]
   \<and> length (filter (isGoalConversion (lit ''g1'') (lit ''uuid-1'')) (enqueued secondLoad)) = 2"
  by (simp add: exReloaded_state secondLoad_state conversions_eventLog evSessionStart_def
        evView_def evConversion_def lit_inj)


text \<open>
  Claim C5 as stated fails for a stored assignment whose \<open>variantId\<close> is the empty
  string, which \<open>if (!variantId)\<close> takes for a missing one: the visitor is bucketed again
  and the stored variant changes with the weights.
\<close>

theorem assignment_stability_counterexample:
  "map_option variantId (map_of (assignments exBlankViewed) (lit ''e1'')) = Some []
   \<and> ls_assignments (storage exBlankViewed) = Some (assignments exBlankViewed)
   \<and> map_option variantId (map_of (assignments exBlankReloaded) (lit ''e1'')) = Some (lit ''B'')"
  by (simp add: exBlankViewed_state exBlankReloaded_state exBlankAssignment_def exAssignment_def)




theorem rejected_conversion_keeps_state_witness:
  "exposures exUnexposed = []
   \<and> tryRecordConversion (exBlogEnv 1500) exGoal [] exUnexposed = exUnexposed
   \<and> goalSessionKey exGoal exUnexposed \<notin> trackedGoals exUnexposed
   \<and> trackedGoals exNavigated = trackedGoals exUnexposed
   \<and> sessionId exNavigated = sessionId exUnexposed
   \<and> exposures exNavigated \<noteq> [] \<and> \<not> restricted exGoal
   \<and> (\<exists>e. enqueued (tryRecordConversion (exEnv 2000) exGoal [] exNavigated)
              = enqueued exNavigated @ [e]
            \<and> isGoalConversion (lit ''g1'') (lit ''uuid-1'') e)"
proof -
  have h1: "exposures exUnexposed = []" by (simp add: exUnexposed_state)
  have h2: "goalSessionKey exGoal exUnexposed \<notin> trackedGoals exUnexposed"
    by (simp add: exUnexposed_state)
  have h3: "trackedGoals exNavigated = trackedGoals exUnexposed"
    by (simp add: exUnexposed_state exNavigated_state)
  have h4: "sessionId exNavigated = sessionId exUnexposed"
    by (simp add: exUnexposed_state exNavigated_state)
  have h5: "exposures exNavigated \<noteq> []" by (simp add: exNavigated_state)
  have h6: "\<not> restricted exGoal" by (simp add: restricted_def exGoal_def)
  have h7: "goal_id exGoal = lit ''g1''" "sessionId exUnexposed = lit ''uuid-1''"
    by (simp_all add: exGoal_def exUnexposed_state)
  note th = rejected_conversion_keeps_state
            [of exUnexposed exGoal "[]" "exBlogEnv 1500" "[]" exNavigated "exEnv 2000"]
  have r: "tryRecordConversion (exBlogEnv 1500) exGoal [] exUnexposed = exUnexposed"
    using th h1 by simp
  show ?thesis
    using th h1 h2 h3 h4 h5 h6 r by (simp add: h7)
qed

theorem exposure_expiry_witness:
  "distinct (map fst (exposures exViewed))
   \<and> map_of (exposures exViewed) (lit ''e1'') = Some (exExposure 1000 1)
   \<and> exposedAt (exExposure 1000 1) = 1000
   \<and> attributionWindowDays exViewed * 24 * 60 * 60 * 1000 = 2592000000
   \<and> map_of (exposures (cleanupExpiredExposures (exEnv (1000 + 2592000000 - 1)) exViewed))
        (lit ''e1'') = Some (exExposure 1000 1)
   \<and> cleanupExpiredExposures (exEnv (1000 + 2592000000 - 1)) exViewed = exViewed
   \<and> map_of (exposures (cleanupExpiredExposures (exEnv (1000 + 2592000000 + 1)) exViewed))
        (lit ''e1'') = None
   \<and> ls_exposures (storage (cleanupExpiredExposures (exEnv (1000 + 2592000000 + 1)) exViewed))
       = Some (exposures (cleanupExpiredExposures (exEnv (1000 + 2592000000 + 1)) exViewed))"
proof -
  have e: "exposures exViewed = [(lit ''e1'', exExposure 1000 1)]"
    by (simp add: exViewed_state)
  have w: "attributionWindowDays exViewed = 30" by (simp add: exViewed_state)
  have d: "distinct (map fst (exposures exViewed))" by (simp add: e)
  have m: "map_of (exposures exViewed) (lit ''e1'') = Some (exExposure 1000 1)" by (simp add: e)
  have n: "now (exEnv x) = x" for x by (simp add: exEnv_def)
  have a: "exposedAt (exExposure 1000 1) = 1000" by (simp add: exExposure_def)
  show ?thesis
    using exposure_expiry [OF d m, where env = "exEnv (1000 + 2592000000 - 1)"]
      exposure_expiry [OF d m, where env = "exEnv (1000 + 2592000000 + 1)"]
      d m
    by (simp add: w n e a)
qed

text \<open>
  Claim C10 as stated fails for an unknown operator on a cookie the visitor does not
  have: the predicate is not matched, and the experiment is skipped.
\<close>

theorem unrecognized_audience_counterexample:
  "\<not> knownOperator (aud_operator exAudience)
   \<and> checkAudience (exEnv 1000) [] exAudience = Inr False
   \<and> checkAudiences (exEnv 1000) [] [exAudience] = Inr False
   \<and> processExperiment (exEnv 1000) (exExperiment\<lparr>audiences := Some [exAudience]\<rparr>) exUnexposed
       = Inr exUnexposed"
proof -
  have o: "\<not> knownOperator (aud_operator exAudience)"
    by (simp add: knownOperator_def exAudience_def lit_inj)
  have c: "checkAudience (exEnv 1000) [] exAudience = Inr False"
    by (simp add: checkAudience_def userValueOf_def exAudience_def lit_inj orEmpty_def)
  have j: "cookies (storage exUnexposed) = [(lit ''ab_ent_vid'', lit ''uuid-0'')]"
    by (simp add: exUnexposed_state)
  have c2: "checkAudience (exEnv 1000) (cookies (storage exUnexposed)) exAudience = Inr False"
    by (simp add: j checkAudience_def userValueOf_def exAudience_def lit_inj orEmpty_def)
  have r: "regexCompile (exEnv 1000) (lit ''shop'') = Some (\<lambda>s. js_includes s (lit ''shop''))"
    by (simp add: exEnv_def lit_inj)
  have h: "js_includes (href (exEnv 1000)) (lit ''shop'')" by code_simp
  have p: "processExperiment (exEnv 1000) (exExperiment\<lparr>audiences := Some [exAudience]\<rparr>) exUnexposed
       = Inr exUnexposed"
    by (simp add: processExperiment_def exExperiment_def r h c2)
  show ?thesis using o c p by simp
qed

theorem assignment_stability_witness:
  "map_of (assignments exViewed) (lit ''e1'') = Some (exAssignment 1000)
   \<and> variantId (exAssignment 1000) = lit ''B'' \<and> lit ''B'' \<noteq> []
   \<and> bucket (visitorId exViewed) (lit ''e1'')
        [exVariantA\<lparr>trafficWeight := 90\<rparr>, exVariantB\<lparr>trafficWeight := 10\<rparr>] = Inr (lit ''A'')
   \<and> map_of (assignments (snd (processExperiments (exEnv 4000)
                                  (exViewed\<lparr>config := Some exConfigReweighted\<rparr>)))) (lit ''e1'')
     = Some (exAssignment 1000)"
proof -
  have m: "map_of (assignments exViewed) (lit ''e1'') = Some (exAssignment 1000)"
    by (simp add: exViewed_state)
  have v: "variantId (exAssignment 1000) = lit ''B''" by (simp add: exAssignment_def)
  have n: "variantId (exAssignment 1000) \<noteq> []" by (simp add: exAssignment_def lit_def)
  have b: "bucket (lit ''uuid-0'') (lit ''e1'')
        [exVariantA\<lparr>trafficWeight := 90\<rparr>, exVariantB\<lparr>trafficWeight := 10\<rparr>] = Inr (lit ''A'')"
    by code_simp
  note th = assignment_stability [OF m n, of "exEnv 4000" exConfigReweighted]
  show ?thesis
    using conjunct1 [OF th] m n b v by (simp add: exViewed_state)
qed




end
